theory Spec2Isabelle
  imports Main "HOL-Library.Sublist"
begin

section \<open>Settings extraction from the configuration XML\<close>

text \<open>
  Both engines read their settings through the static method \<^verbatim>\<open>_prep_xmltext(et, key)\<close>:
  \<^verbatim>\<open>
  t = et.find(key).text.strip() if et.findtext(key) and (et.find(key).text is not None) else None
  return None if not t or t == "" else t
  \<close>
  The parsed configuration element is modelled by the list of its children, each a tag
  with its optional text (\<open>None\<close> is ElementTree's \<^verbatim>\<open>text is None\<close>, an element without
  content). Keys are plain tags, as every call in the engines passes one.
\<close>

type_synonym element = "(string \<times> string option) list"

fun et_find :: "element \<Rightarrow> string \<Rightarrow> string option option" where
  "et_find [] key = None"
| "et_find ((tag, txt) # rest) key = (if tag = key then Some txt else et_find rest key)"

text \<open>\<^verbatim>\<open>findtext\<close> gives the default \<^verbatim>\<open>None\<close> when nothing matches and the empty
  string for a matching element whose text is \<^verbatim>\<open>None\<close>.\<close>

definition et_findtext :: "element \<Rightarrow> string \<Rightarrow> string option" where
  "et_findtext et key =
     (case et_find et key of
        None \<Rightarrow> None
      | Some None \<Rightarrow> Some []
      | Some (Some s) \<Rightarrow> Some s)"

text \<open>Python's \<^verbatim>\<open>str.isspace\<close> on the code points a \<^typ>\<open>char\<close> can hold.\<close>

definition isspace :: "char \<Rightarrow> bool" where
  "isspace c =
     (let n = (of_char c :: nat)
      in (9 \<le> n \<and> n \<le> 13) \<or> (28 \<le> n \<and> n \<le> 32) \<or> n = 133 \<or> n = 160)"

definition strip :: "string \<Rightarrow> string" where
  "strip s = rev (dropWhile isspace (rev (dropWhile isspace s)))"

text \<open>Truthiness of an optional string: \<^verbatim>\<open>None\<close> and \<^verbatim>\<open>""\<close> are false.\<close>

fun truthy :: "string option \<Rightarrow> bool" where
  "truthy None = False"
| "truthy (Some s) = (s \<noteq> [])"

definition prep_xmltext :: "element \<Rightarrow> string \<Rightarrow> string option" where
  "prep_xmltext et key =
     (let t = (if truthy (et_findtext et key) \<and> et_find et key \<noteq> Some None
               then (case et_find et key of
                       Some (Some s) \<Rightarrow> Some (strip s)
                     | _ \<Rightarrow> None)
               else None)
      in if \<not> truthy t \<or> t = Some [] then None else t)"

text \<open>A configuration used to exercise the extractor.\<close>

definition example_config :: element where
  "example_config =
     [(''Hostname'', Some ''  sftp.example.org ''),
      (''Username'', None),
      (''Password'', Some ''   ''),
      (''RemotePath'', Some ''/in'')]"

section \<open>The engines' surroundings: host, SFTP library, local files\<close>

text \<open>
  Exceptions are values. \<open>IOError\<close> stands for Python 3's single class
  \<^verbatim>\<open>IOError = OSError\<close>; \<open>OtherException\<close> is any other subclass of
  \<^verbatim>\<open>Exception\<close> (paramiko's \<^verbatim>\<open>SFTPError\<close>, an \<^verbatim>\<open>AttributeError\<close>, ...). The string is
  the text \<^verbatim>\<open>str(e)\<close> that the engines put into their messages.
\<close>

datatype exn =
    IOError string
  | TypeError string
  | KeyError string
  | ConnectionException string
  | CredentialException string
  | BadAuthenticationType string
  | OtherException string

fun exn_str :: "exn \<Rightarrow> string" where
  "exn_str (IOError d) = d"
| "exn_str (TypeError d) = d"
| "exn_str (KeyError d) = d"
| "exn_str (ConnectionException d) = d"
| "exn_str (CredentialException d) = d"
| "exn_str (BadAuthenticationType d) = d"
| "exn_str (OtherException d) = d"

text \<open>The message types the engines pass to \<^verbatim>\<open>output_message\<close>: the three values of
  \<^verbatim>\<open>Sdk.EngineMessageType\<close> they use, and \<^verbatim>\<open>Sdk.Status.info\<close>.\<close>

datatype EngineMessageType = MsgError | MsgWarning | MsgInfo | StatusInfo

datatype ToolMode = NONE_MODE | LIST_FILES | DOWNLOAD_TO_PATH | DOWNLOAD_TO_BLOB

datatype UploadMode = UPLOAD_NONE_MODE | UPLOAD_FILES | UPLOAD_BLOBS

datatype FileHandling = NONE_HANDLING | KEEP_FILES | DELETE_FILES | MOVE_FILES

text \<open>One entry of the list returned by \<^verbatim>\<open>listdir_attr\<close> or the result of \<^verbatim>\<open>stat\<close>.\<close>

record SFTPAttributes =
  att_filename :: string
  st_size :: int
  st_uid :: int
  st_gid :: int
  st_mode :: int
  st_atime :: int
  st_mtime :: int

text \<open>
  The dictionary \<^verbatim>\<open>f\<close> built per remote item. The times are kept as the whole seconds
  \<^verbatim>\<open>int(fattr.st_atime)\<close>, and uid, gid and mode as the numbers, their rendering as text
  left out. The keys \<^verbatim>\<open>is_file\<close> and \<^verbatim>\<open>is_dir\<close> exist only in the dictionaries of
  \<^verbatim>\<open>pi_push_all_records\<close>; \<open>None\<close> is the missing key.
\<close>

record file_item =
  filename :: string
  size_bytes :: int
  uid :: int
  gid :: int
  mode :: int
  atime :: int
  mtime :: int
  is_file :: "bool option"
  is_dir :: "bool option"

text \<open>The record pushed downstream: the fields of \<^verbatim>\<open>build_ayx_output\<close> for the tool mode.\<close>

record out_record =
  rec_Filename :: string
  rec_Size :: int
  rec_TimeAdded :: int
  rec_TimeModified :: int
  rec_UID :: "int option"
  rec_GID :: "int option"
  rec_Mode :: "int option"
  rec_IsDirectory :: "bool option"
  rec_IsFile :: "bool option"
  rec_Blob :: "string option"
  rec_FilePath :: "string option"

text \<open>
  Every call that leaves the engine is an event of the run's trace, in the order of the
  calls. \<open>Connected c\<close> is a \<^verbatim>\<open>pysftp.Connection(...)\<close> that returned a connection, named
  by the position \<open>c\<close> of the event; \<open>ConnectFailed\<close> is one that raised.
\<close>

datatype event =
    Message EngineMessageType string
  | Connected nat
  | ConnectFailed
  | Mkdir string
  | HostkeysSave string
  | Isdir string
  | Exists string
  | Isfile string
  | Stat string
  | Chdir string
  | ListdirAttr
  | Get string string
  | Put string
  | Putfo string string
  | Remove string
  | Rename string string
  | Close nat
  | CreateTempFileName string
  | OpenRead string
  | OsRemove string
  | OsRename string string
  | UpdateProgress nat nat
  | OutputInit
  | PushRecord out_record
  | OutputRecordCount bool
  | OutputClose

text \<open>A record of the known-hosts store: the host names of the entry, the key type and
  the key material.\<close>

record HostKeyEntry =
  hostnames :: "string list"
  keytype :: string
  keydata :: string

text \<open>
  What the calls answer is given by an environment. Each answer may depend on everything
  that happened before, so each function takes the trace up to the call. A call that can
  raise answers with \<open>Some e\<close> (or \<open>Inl e\<close>) when it does. \<^verbatim>\<open>os.path.join\<close>,
  \<^verbatim>\<open>os.path.split\<close> and \<^verbatim>\<open>os.path.dirname\<close> are those of the platform.
\<close>

record env =
  update_only :: bool
  os_path_exists :: "event list \<Rightarrow> string \<Rightarrow> bool"
  os_path_isfile :: "event list \<Rightarrow> string \<Rightarrow> bool"
  os_path_isdir :: "event list \<Rightarrow> string \<Rightarrow> bool"
  os_path_join :: "string \<Rightarrow> string \<Rightarrow> string"
  os_path_split :: "string \<Rightarrow> string \<times> string"
  os_path_dirname :: "string \<Rightarrow> string"
  os_mkdir :: "event list \<Rightarrow> string \<Rightarrow> exn option"
  os_remove :: "event list \<Rightarrow> string \<Rightarrow> exn option"
  os_rename :: "event list \<Rightarrow> string \<Rightarrow> string \<Rightarrow> exn option"
  open_read :: "event list \<Rightarrow> string \<Rightarrow> exn + string"
  create_temp_file_name :: "event list \<Rightarrow> string"
  known_hosts_path :: string
  hostkeys_save :: "event list \<Rightarrow> string \<Rightarrow> exn option"
  connection :: "event list \<Rightarrow> exn + string \<times> string"
  sftp_isdir :: "event list \<Rightarrow> string \<Rightarrow> bool"
  sftp_exists :: "event list \<Rightarrow> string \<Rightarrow> bool"
  sftp_isfile :: "event list \<Rightarrow> string \<Rightarrow> bool"
  sftp_chdir :: "event list \<Rightarrow> string \<Rightarrow> exn option"
  sftp_listdir_attr :: "event list \<Rightarrow> SFTPAttributes list"
  sftp_stat :: "event list \<Rightarrow> string \<Rightarrow> SFTPAttributes"
  sftp_get :: "event list \<Rightarrow> string \<Rightarrow> string \<Rightarrow> exn option"
  sftp_put :: "event list \<Rightarrow> string \<Rightarrow> exn option"
  sftp_putfo :: "event list \<Rightarrow> string \<Rightarrow> string \<Rightarrow> exn option"
  sftp_remove :: "event list \<Rightarrow> string \<Rightarrow> exn option"
  sftp_rename :: "event list \<Rightarrow> string \<Rightarrow> string \<Rightarrow> exn option"
  sftp_pwd :: "event list \<Rightarrow> string"
  sftp_normalize :: "event list \<Rightarrow> string \<Rightarrow> string"

text \<open>The state outside the engine objects: the trace so far and the persisted
  known-hosts store (a missing file is the empty store).\<close>

record world =
  trace :: "event list"
  known_hosts :: "HostKeyEntry list"

definition emit :: "event \<Rightarrow> world \<Rightarrow> world" where
  "emit e w = w\<lparr>trace := trace w @ [e]\<rparr>"

definition output_message :: "EngineMessageType \<Rightarrow> string \<Rightarrow> world \<Rightarrow> world" where
  "output_message t m w = emit (Message t m) w"

fun output_messages :: "EngineMessageType \<Rightarrow> string list \<Rightarrow> world \<Rightarrow> world" where
  "output_messages t [] w = w"
| "output_messages t (m # ms) w = output_messages t ms (output_message t m w)"

text \<open>The events a step added to the trace.\<close>

definition emitted :: "world \<Rightarrow> world \<Rightarrow> event list" where
  "emitted w w' = drop (length (trace w)) (trace w')"

text \<open>\<^verbatim>\<open>"{}".format(x)\<close> for an optional string, and the double quote of the messages.\<close>

fun fmt :: "string option \<Rightarrow> string" where
  "fmt None = ''None''"
| "fmt (Some s) = s"

definition dq :: string where
  "dq = [CHR 0x22]"

section \<open>Settings and their validation\<close>

record sftp_settings =
  hostname :: "string option"
  port :: int
  username :: "string option"
  password :: "string option"
  key_filepath :: "string option"
  key_passphrase :: "string option"
  remote_path :: "string option"

text \<open>
  \<^verbatim>\<open>REGEX_HOSTNAME\<close>: labels separated by dots, each label a letter or digit, or letters,
  digits and hyphens between a first and a last letter or digit. \<^verbatim>\<open>$\<close> also matches
  before a final newline.
\<close>

definition alnum :: "char \<Rightarrow> bool" where
  "alnum c =
     (let n = (of_char c :: nat)
      in (48 \<le> n \<and> n \<le> 57) \<or> (65 \<le> n \<and> n \<le> 90) \<or> (97 \<le> n \<and> n \<le> 122))"

definition label_ok :: "string \<Rightarrow> bool" where
  "label_ok l =
     (l \<noteq> [] \<and> alnum (hd l) \<and> alnum (last l) \<and> list_all (\<lambda>c. alnum c \<or> c = CHR ''-'') l)"

fun split_dots :: "string \<Rightarrow> string list" where
  "split_dots [] = [[]]"
| "split_dots (c # cs) =
     (if c = CHR ''.'' then [] # split_dots cs
      else (case split_dots cs of
              [] \<Rightarrow> [[c]]
            | l # ls \<Rightarrow> (c # l) # ls))"

definition hostname_grammar :: "string \<Rightarrow> bool" where
  "hostname_grammar h = list_all label_ok (split_dots h)"

definition match_hostname :: "string \<Rightarrow> bool" where
  "match_hostname h =
     (hostname_grammar h \<or> (h \<noteq> [] \<and> last h = CHR 0x0A \<and> hostname_grammar (butlast h)))"

text \<open>The download engine's plugin object. \<open>input_optional\<close> is whether an incoming
  connection was added.\<close>

record AyxPlugin =
  sftp :: sftp_settings
  move_path :: "string option"
  tool_mode :: ToolMode
  local_path :: "string option"
  blobfield :: string
  file_handling :: FileHandling
  incoming_field :: "string option"
  input_optional :: bool
  output_recordinfo :: bool

text \<open>The checks shared by both engines' \<^verbatim>\<open>validate_settings\<close>, in the order of the
  source, each giving the messages it would show.\<close>

definition check_connection_settings :: "sftp_settings \<Rightarrow> string list" where
  "check_connection_settings s =
     (if \<not> truthy (hostname s) then [''Please enter a hostname.'']
      else if \<not> match_hostname (fmt (hostname s))
      then [''Please enter a valid hostname without protocol, user or port.'']
      else []) @
     (if port s = 0 then [''Please provide a port for the connection.''] else []) @
     (if \<not> truthy (username s) then [''Please provide a username for the connection.'']
      else []) @
     (if \<not> truthy (remote_path s)
      then [''Please provide a remote path. Root directory would be /.''] else [])"

definition check_keyfile :: "env \<Rightarrow> event list \<Rightarrow> sftp_settings \<Rightarrow> string list" where
  "check_keyfile ev h s =
     (if truthy (key_filepath s)
      then (if \<not> os_path_exists ev h (fmt (key_filepath s))
            then [''The keyfile could not be found. Please check file path.'']
            else if \<not> os_path_isfile ev h (fmt (key_filepath s))
            then [''The path for the keyfile is not a file. Please specify a filename.'']
            else [])
      else [])"

definition validation_messages :: "env \<Rightarrow> event list \<Rightarrow> AyxPlugin \<Rightarrow> string list" where
  "validation_messages ev h p =
     check_connection_settings (sftp p) @
     (if tool_mode p = NONE_MODE then [''Please select a mode for the tool.''] else []) @
     (if tool_mode p = DOWNLOAD_TO_PATH \<and> \<not> truthy (local_path p)
      then [''Please enter a path to store downloaded files.''] else []) @
     (if tool_mode p \<noteq> LIST_FILES \<and> file_handling p = NONE_HANDLING
      then [''Please decide what should happen with the files after download.''] else []) @
     (if tool_mode p \<noteq> LIST_FILES \<and> file_handling p = MOVE_FILES \<and> \<not> truthy (move_path p)
      then [''Please specify a path where the data should be moved to.''] else []) @
     check_keyfile ev h (sftp p) @
     (if tool_mode p = DOWNLOAD_TO_PATH \<and> truthy (local_path p)
      then (if \<not> os_path_exists ev h (fmt (local_path p))
            then [''The specified path for the output does not exist. Please create the folder or enter a different path.'']
            else if \<not> os_path_isdir ev h (fmt (local_path p))
            then [''The output path is not a directory. Please enter a directory.'']
            else [])
      else []) @
     (if input_optional p \<and> \<not> truthy (incoming_field p)
      then [''Please select a field from the incoming data containing file/folder names.'']
      else [])"

text \<open>\<^verbatim>\<open>validate_settings(silent)\<close>: the result is whether no check failed; the messages
  are shown, as errors, unless \<open>silent\<close>.\<close>

definition validate_settings :: "env \<Rightarrow> AyxPlugin \<Rightarrow> bool \<Rightarrow> world \<Rightarrow> bool \<times> world" where
  "validate_settings ev p silent w =
     (let ms = validation_messages ev (trace w) p
      in (ms = [], if silent then w else output_messages MsgError ms w))"

section \<open>Connecting: known hosts and the remote path\<close>

text \<open>
  The known-hosts store of the library: \<^verbatim>\<open>lookup\<close> gives the entries that name the host,
  or \<^verbatim>\<open>None\<close> when there is none; \<^verbatim>\<open>add\<close> replaces the key of the first entry that names
  the host with the same key type, and appends a new entry otherwise.
\<close>

definition hostkeys_lookup :: "HostKeyEntry list \<Rightarrow> string \<Rightarrow> HostKeyEntry list option" where
  "hostkeys_lookup hk h =
     (let es = filter (\<lambda>e. h \<in> set (hostnames e)) hk
      in if es = [] then None else Some es)"

fun hostkeys_add :: "HostKeyEntry list \<Rightarrow> string \<Rightarrow> string \<Rightarrow> string \<Rightarrow> HostKeyEntry list" where
  "hostkeys_add [] h t k = [\<lparr>hostnames = [h], keytype = t, keydata = k\<rparr>]"
| "hostkeys_add (e # es) h t k =
     (if h \<in> set (hostnames e) \<and> keytype e = t then e\<lparr>keydata := k\<rparr> # es
      else e # hostkeys_add es h t k)"

text \<open>The four handlers after the \<^verbatim>\<open>try\<close> of \<^verbatim>\<open>_init_sftp\<close>, in their order; the last one
  takes every other exception.\<close>

fun connect_error_message :: "exn \<Rightarrow> string" where
  "connect_error_message (ConnectionException d) =
     ''Could not connect to server. Please check settings.''"
| "connect_error_message (CredentialException d) =
     ''Authentication failed. Please check credentials.''"
| "connect_error_message (BadAuthenticationType d) = ''Unsupported Authentication Type: '' @ d"
| "connect_error_message e = ''Connection error: '' @ exn_str e"

text \<open>
  The body of \<^verbatim>\<open>if sftp_hosts != None\<close> after its warning: add the server's key, create
  the directory of the known-hosts file when it is missing, save. An exception of
  \<^verbatim>\<open>os.mkdir\<close> or \<^verbatim>\<open>save\<close> is inside the \<^verbatim>\<open>try\<close>: the method returns \<^verbatim>\<open>False\<close>.
\<close>

definition cache_hostkey ::
  "env \<Rightarrow> string \<Rightarrow> string \<Rightarrow> string \<Rightarrow> nat \<Rightarrow> world \<Rightarrow> nat option \<times> world" where
  "cache_hostkey ev host kname key c w =
     (let sftp_hosts = hostkeys_add (known_hosts w) host kname key;
          hosts_file = known_hosts_path ev;
          d = os_path_dirname ev hosts_file;
          made = (if \<not> os_path_exists ev (trace w) d
                  then (os_mkdir ev (trace w) d, emit (Mkdir d) w)
                  else (None, w))
      in case made of
           (Some e, w1) \<Rightarrow> (None, output_message MsgError (connect_error_message e) w1)
         | (None, w1) \<Rightarrow>
             (case hostkeys_save ev (trace w1) hosts_file of
                Some e \<Rightarrow>
                  (None, output_message MsgError (connect_error_message e)
                           (emit (HostkeysSave hosts_file) w1))
              | None \<Rightarrow>
                  (Some c, (emit (HostkeysSave hosts_file) w1)\<lparr>known_hosts := sftp_hosts\<rparr>)))"

text \<open>
  The first part of \<^verbatim>\<open>_init_sftp\<close>, the same text in both engines: look the host up,
  warn and switch key validation off when it is unknown, connect, cache the key of an
  unknown host. The result is the connection, or \<open>None\<close> where the method returns
  \<^verbatim>\<open>False\<close>. The host name is shown as \<^verbatim>\<open>format\<close> shows it; every caller has validated
  that it is set.
\<close>

definition open_connection :: "env \<Rightarrow> sftp_settings \<Rightarrow> world \<Rightarrow> nat option \<times> world" where
  "open_connection ev s w =
     (let host = fmt (hostname s);
          unknown = (hostkeys_lookup (known_hosts w) host = None);
          w1 = (if unknown
                then output_message MsgWarning
                       (''Unkown host '' @ host @ ''. Any host key will be accepted.'') w
                else w)
      in case connection ev (trace w1) of
           Inl e \<Rightarrow>
             (None, output_message MsgError (connect_error_message e) (emit ConnectFailed w1))
         | Inr (kname, key) \<Rightarrow>
             (let c = length (trace w1);
                  w2 = emit (Connected c) w1
              in if unknown
                 then cache_hostkey ev host kname key c
                        (output_message MsgWarning
                           ''Connected to unknown host. Caching its hostkey to known_hosts.'' w2)
                 else (Some c, w2)))"

text \<open>\<^verbatim>\<open>_init_sftp\<close> of the download engine: the remote path is checked with \<^verbatim>\<open>isdir\<close>,
  then entered; only an \<^verbatim>\<open>IOError\<close> of \<^verbatim>\<open>chdir\<close> is handled.\<close>

definition init_sftp :: "env \<Rightarrow> AyxPlugin \<Rightarrow> world \<Rightarrow> (exn + nat option) \<times> world" where
  "init_sftp ev p w =
     (case open_connection ev (sftp p) w of
        (None, w1) \<Rightarrow> (Inr None, w1)
      | (Some c, w1) \<Rightarrow>
          (let rp = fmt (remote_path (sftp p));
               w2 = output_message MsgInfo
                      (''Connected successfully to '' @ fmt (hostname (sftp p))) w1;
               w3 = emit (Isdir rp) w2
           in if \<not> sftp_isdir ev (trace w2) rp
              then (Inr None,
                    output_message MsgError
                      (''Remote path '' @ dq @ rp @ dq @ '' is not a directory.'') w3)
              else (case sftp_chdir ev (trace w3) rp of
                      None \<Rightarrow> (Inr (Some c), emit (Chdir rp) w3)
                    | Some (IOError d) \<Rightarrow>
                        (Inr None,
                         output_message MsgError (''Remote path does not exist: '' @ rp)
                           (emit (Chdir rp) w3))
                    | Some e \<Rightarrow> (Inl e, emit (Chdir rp) w3))))"

section \<open>The download engine\<close>

text \<open>Lines 518 to 549 of \<^verbatim>\<open>_process_file\<close>: what happens to the remote file after its
  record was pushed.\<close>

definition handle_file :: "env \<Rightarrow> AyxPlugin \<Rightarrow> file_item \<Rightarrow> world \<Rightarrow> (exn + unit) \<times> world" where
  "handle_file ev p f w =
     (if file_handling p = MOVE_FILES then
        (case move_path p of
           None \<Rightarrow> (Inl (TypeError ''move_path is None''), w)
         | Some mp \<Rightarrow>
             (let w1 = emit (Exists mp) w
              in if \<not> sftp_exists ev (trace w) mp
                 then (Inr (),
                       output_message MsgWarning
                         (''The target folder '' @ mp @ '' does not exist.'') w1)
                 else
                   (let w2 = emit (Isdir mp) w1
                    in if \<not> sftp_isdir ev (trace w1) mp
                       then (Inr (),
                             output_message MsgWarning
                               (''The target folder '' @ mp @ '' is not a directory.'') w2)
                       else
                         (let src = sftp_pwd ev (trace w2) @ ''/'' @ filename f;
                              dst = sftp_normalize ev (trace w2) mp @ ''/'' @ filename f;
                              w3 = emit (Rename src dst) w2
                          in case sftp_rename ev (trace w2) src dst of
                               None \<Rightarrow>
                                 (Inr (),
                                  output_message MsgInfo
                                    (''File '' @ filename f @ '' moved to '' @
                                     sftp_normalize ev (trace w3) mp @ ''.'') w3)
                             | Some (IOError d) \<Rightarrow>
                                 (Inr (),
                                  output_message MsgError
                                    (''Error moving file '' @ dq @ filename f @ dq @ '': '' @ d)
                                    w3)
                             | Some e \<Rightarrow> (Inl e, w3)))))
      else if file_handling p = DELETE_FILES then
        (let tgt = sftp_pwd ev (trace w) @ ''/'' @ filename f;
             w1 = emit (Remove tgt) w
         in case sftp_remove ev (trace w) tgt of
              None \<Rightarrow>
                (Inr (),
                 output_message MsgInfo (''File '' @ filename f @ '' deleted from server.'') w1)
            | Some (IOError d) \<Rightarrow>
                (Inr (),
                 output_message MsgError
                   (''Error deleting file '' @ dq @ filename f @ dq @ '': '' @ d) w1)
            | Some e \<Rightarrow> (Inl e, w1))
      else (Inr (), w))"

text \<open>Lines 512 to 516, then the handling: push the finished record.\<close>

definition push_and_handle ::
  "env \<Rightarrow> AyxPlugin \<Rightarrow> file_item \<Rightarrow> out_record \<Rightarrow> world \<Rightarrow> (exn + unit) \<times> world" where
  "push_and_handle ev p f r w = handle_file ev p f (emit (PushRecord r) w)"

text \<open>Lines 485 to 490: where the download goes. In a mode that is neither of the two
  the name is never bound, and its first use raises.\<close>

definition choose_out_fname ::
  "env \<Rightarrow> AyxPlugin \<Rightarrow> file_item \<Rightarrow> world \<Rightarrow> exn + string \<times> world" where
  "choose_out_fname ev p f w =
     (if tool_mode p = DOWNLOAD_TO_BLOB then
        (let t = create_temp_file_name ev (trace w)
         in Inr (t, emit (CreateTempFileName t) w))
      else if tool_mode p = DOWNLOAD_TO_PATH then
        (case local_path p of
           None \<Rightarrow> Inl (TypeError ''local_path is None'')
         | Some lp \<Rightarrow> Inr (os_path_join ev lp (filename f), w))
      else Inl (OtherException ''UnboundLocalError''))"

text \<open>Lines 499 to 510: in blob mode the downloaded file is read back in full; the field
  of the mode is set.\<close>

definition after_get ::
  "env \<Rightarrow> AyxPlugin \<Rightarrow> file_item \<Rightarrow> out_record \<Rightarrow> string \<Rightarrow> world \<Rightarrow> (exn + unit) \<times> world" where
  "after_get ev p f r out_fname w =
     (if tool_mode p = DOWNLOAD_TO_BLOB then
        (case open_read ev (trace w) out_fname of
           Inl e \<Rightarrow> (Inl e, emit (OpenRead out_fname) w)
         | Inr blob_content \<Rightarrow>
             push_and_handle ev p f (r\<lparr>rec_Blob := Some blob_content\<rparr>)
               (emit (OpenRead out_fname) w))
      else if tool_mode p = DOWNLOAD_TO_PATH then
        push_and_handle ev p f (r\<lparr>rec_FilePath := Some out_fname\<rparr>) w
      else push_and_handle ev p f r w)"

text \<open>
  \<^verbatim>\<open>_process_file\<close>. The \<^verbatim>\<open>try\<close> around \<^verbatim>\<open>get\<close> handles \<^verbatim>\<open>IOError\<close> with a message and goes
  on; \<^verbatim>\<open>open\<close> of the downloaded file stands outside any \<^verbatim>\<open>try\<close>.
\<close>

definition process_file :: "env \<Rightarrow> AyxPlugin \<Rightarrow> file_item \<Rightarrow> world \<Rightarrow> (exn + unit) \<times> world" where
  "process_file ev p f w =
     (let r = \<lparr>rec_Filename = filename f, rec_Size = size_bytes f,
               rec_TimeAdded = atime f, rec_TimeModified = mtime f,
               rec_UID = None, rec_GID = None, rec_Mode = None,
               rec_IsDirectory = None, rec_IsFile = None,
               rec_Blob = None, rec_FilePath = None\<rparr>
      in if tool_mode p = LIST_FILES then
           (case (is_dir f, is_file f) of
              (Some d, Some fl) \<Rightarrow>
                push_and_handle ev p f
                  (r\<lparr>rec_UID := Some (uid f), rec_GID := Some (gid f),
                     rec_Mode := Some (mode f),
                     rec_IsDirectory := Some d, rec_IsFile := Some fl\<rparr>) w
            | (None, _) \<Rightarrow> (Inl (KeyError ''is_dir''), w)
            | (_, None) \<Rightarrow> (Inl (KeyError ''is_file''), w))
         else
           (case choose_out_fname ev p f w of
              Inl e \<Rightarrow> (Inl e, w)
            | Inr (out_fname, w1) \<Rightarrow>
                (let w2 = emit (Get (filename f) out_fname) w1
                 in case sftp_get ev (trace w1) (filename f) out_fname of
                      Some (IOError d) \<Rightarrow>
                        after_get ev p f r out_fname
                          (output_message MsgError
                             (''Error transferring file '' @ dq @ filename f @ dq @ '': '' @ d)
                             w2)
                    | Some e \<Rightarrow> (Inl e, w2)
                    | None \<Rightarrow> after_get ev p f r out_fname w2)))"

text \<open>Decimal text of a count, as \<^verbatim>\<open>format\<close> writes it.\<close>

fun show_nat :: "nat \<Rightarrow> string" where
  "show_nat n =
     (if n < 10 then [char_of (48 + n)]
      else show_nat (n div 10) @ [char_of (48 + n mod 10)])"

text \<open>Lines 394 to 407 of \<^verbatim>\<open>pi_push_all_records\<close>: one dictionary per listed entry, with
  one \<^verbatim>\<open>isfile\<close> and one \<^verbatim>\<open>isdir\<close> round trip each.\<close>

fun collect_files :: "env \<Rightarrow> SFTPAttributes list \<Rightarrow> world \<Rightarrow> file_item list \<times> world" where
  "collect_files ev [] w = ([], w)"
| "collect_files ev (a # as) w =
     (let w1 = emit (Isfile (att_filename a)) w;
          w2 = emit (Isdir (att_filename a)) w1;
          f = \<lparr>filename = att_filename a, size_bytes = st_size a,
               uid = st_uid a, gid = st_gid a, mode = st_mode a,
               atime = st_atime a, mtime = st_mtime a,
               is_file = Some (sftp_isfile ev (trace w) (att_filename a)),
               is_dir = Some (sftp_isdir ev (trace w1) (att_filename a))\<rparr>;
          (fs, w3) = collect_files ev as w2
      in (f # fs, w3))"

text \<open>
  The loop of lines 412 to 426, \<open>i\<close> the value of \<^verbatim>\<open>item_counter\<close> after its increment
  and \<open>n\<close> the length of the whole list. The progress fraction is kept as the pair of
  numerator and denominator. An exception of \<^verbatim>\<open>_process_file\<close> leaves the loop.
\<close>

fun process_items ::
  "env \<Rightarrow> AyxPlugin \<Rightarrow> nat \<Rightarrow> nat \<Rightarrow> file_item list \<Rightarrow> world \<Rightarrow> (exn + unit) \<times> world" where
  "process_items ev p i n [] w = (Inr (), w)"
| "process_items ev p i n (f # fs) w =
     (let w1 = emit (UpdateProgress i n) w
      in case is_file f of
           None \<Rightarrow> (Inl (KeyError ''is_file''), w1)
         | Some isf \<Rightarrow>
             if \<not> isf \<and> tool_mode p \<noteq> LIST_FILES
             then process_items ev p (Suc i) n fs
                    (output_message MsgWarning
                       (dq @ fmt (remote_path (sftp p)) @ filename f @ dq @
                        '' is not a file. Skipped.'') w1)
             else (case process_file ev p f w1 of
                     (Inl e, w2) \<Rightarrow> (Inl e, w2)
                   | (Inr u, w2) \<Rightarrow> process_items ev p (Suc i) n fs w2))"

definition summary_message :: "AyxPlugin \<Rightarrow> nat \<Rightarrow> string" where
  "summary_message p k =
     (if tool_mode p = LIST_FILES
      then show_nat k @ '' items in found in directory '' @
           fmt (hostname (sftp p)) @ fmt (remote_path (sftp p))
      else show_nat k @ '' files downloaded from '' @
           fmt (hostname (sftp p)) @ fmt (remote_path (sftp p)))"

text \<open>\<^verbatim>\<open>pi_push_all_records\<close>. The assignment to \<^verbatim>\<open>self.output_recordinfo\<close> is not kept:
  the field is read only in the first branch.\<close>

definition pi_push_all_records :: "env \<Rightarrow> AyxPlugin \<Rightarrow> world \<Rightarrow> (exn + bool) \<times> world" where
  "pi_push_all_records ev p w =
     (if update_only ev then (Inr False, if output_recordinfo p then emit OutputInit w else w)
      else
        (case validate_settings ev p True w of
           (False, w1) \<Rightarrow> (Inr False, w1)
         | (True, w1) \<Rightarrow>
             (case init_sftp ev p (emit (UpdateProgress 0 1) w1) of
                (Inl e, w2) \<Rightarrow> (Inl e, w2)
              | (Inr None, w2) \<Rightarrow> (Inr False, w2)
              | (Inr (Some c), w2) \<Rightarrow>
                  (let (file_list, w3) =
                         collect_files ev (sftp_listdir_attr ev (trace w2)) (emit ListdirAttr w2)
                   in case process_items ev p 0 (length file_list) file_list
                             (emit OutputInit w3) of
                        (Inl e, w4) \<Rightarrow> (Inl e, w4)
                      | (Inr u, w4) \<Rightarrow>
                          (let k = (if tool_mode p = LIST_FILES then length file_list
                                    else length (filter (\<lambda>f. is_file f = Some True) file_list))
                           in (Inr True,
                               emit OutputClose
                                 (emit (UpdateProgress 1 1)
                                    (output_message StatusInfo (summary_message p k)
                                       (emit (Close c) w4)))))))))"

subsection \<open>Records from an incoming connection\<close>

datatype FieldType = FT_string | FT_wstring | FT_v_string | FT_v_wstring | FT_blob | FT_other

text \<open>The incoming record metadata is the list of its fields;
  \<^verbatim>\<open>get_field_by_name(name, throw_error=False)\<close> is the first field of that name.\<close>

definition get_field_by_name ::
  "(string \<times> FieldType) list \<Rightarrow> string \<Rightarrow> (string \<times> FieldType) option" where
  "get_field_by_name flds name = find (\<lambda>fld. fst fld = name) flds"

text \<open>The state of an \<^verbatim>\<open>IncomingInterface\<close> object. \<open>blob_field_obj\<close> is the attribute
  \<^verbatim>\<open>blob_field\<close> of the upload engine's interface; the download engine's has none and
  never touches it.\<close>

record IncomingInterface =
  in_field :: "(string \<times> FieldType) option"
  blob_field_obj :: "(string \<times> FieldType) option"
  sftp_conn :: "nat option"
  file_counter :: nat

text \<open>An incoming record: what \<^verbatim>\<open>in_field.get_as_string\<close> and \<^verbatim>\<open>blob_field.get_as_blob\<close>
  read from it.\<close>

record in_record =
  rec_name :: string
  rec_blob :: string





section \<open>The upload engine\<close>

text \<open>The upload engine's plugin object.\<close>

record UploadPlugin =
  u_sftp :: sftp_settings
  upload_mode :: UploadMode
  u_file_handling :: FileHandling
  u_move_path :: "string option"
  u_incoming_field :: "string option"
  blob_field :: "string option"
  overwrite :: bool

definition upload_validation_messages ::
  "env \<Rightarrow> event list \<Rightarrow> UploadPlugin \<Rightarrow> string list" where
  "upload_validation_messages ev h p =
     check_connection_settings (u_sftp p) @
     (if upload_mode p = UPLOAD_NONE_MODE
      then [''Please specify what kind of data you provide.''] else []) @
     (if \<not> truthy (u_incoming_field p)
      then [''Please select a field from the incoming data containing file names.'']
      else []) @
     (if upload_mode p = UPLOAD_BLOBS \<and> \<not> truthy (blob_field p)
      then [''Please select a field containing the blob data.''] else []) @
     (if upload_mode p = UPLOAD_FILES \<and> u_file_handling p = NONE_HANDLING
      then [''Please decide what should happen with the files after upload.''] else []) @
     (if upload_mode p = UPLOAD_FILES \<and> u_file_handling p = MOVE_FILES \<and>
         \<not> truthy (u_move_path p)
      then [''Please specify a path where the data should be moved to after upload.'']
      else []) @
     check_keyfile ev h (u_sftp p) @
     (if upload_mode p = UPLOAD_FILES \<and> u_file_handling p = MOVE_FILES \<and>
         truthy (u_move_path p)
      then (if \<not> os_path_exists ev h (fmt (u_move_path p))
            then [''The specified path for moving the files after upload does not exist. Please create the folder or enter a different path.'']
            else if \<not> os_path_isdir ev h (fmt (u_move_path p))
            then [''The target path for moving the files is not a directory. Please enter a directory.'']
            else [])
      else [])"

definition upload_validate_settings ::
  "env \<Rightarrow> UploadPlugin \<Rightarrow> bool \<Rightarrow> world \<Rightarrow> bool \<times> world" where
  "upload_validate_settings ev p silent w =
     (let ms = upload_validation_messages ev (trace w) p
      in (ms = [], if silent then w else output_messages MsgError ms w))"

text \<open>\<^verbatim>\<open>_init_sftp\<close> of the upload engine: after the connection the remote path is entered
  with \<^verbatim>\<open>chdir\<close> at once; only an \<^verbatim>\<open>IOError\<close> of \<^verbatim>\<open>chdir\<close> is handled.\<close>

definition upload_init_sftp ::
  "env \<Rightarrow> UploadPlugin \<Rightarrow> world \<Rightarrow> (exn + nat option) \<times> world" where
  "upload_init_sftp ev p w =
     (case open_connection ev (u_sftp p) w of
        (None, w1) \<Rightarrow> (Inr None, w1)
      | (Some c, w1) \<Rightarrow>
          (let rp = fmt (remote_path (u_sftp p));
               w2 = output_message MsgInfo
                      (''Connected successfully to '' @ fmt (hostname (u_sftp p))) w1
           in case sftp_chdir ev (trace w2) rp of
                None \<Rightarrow> (Inr (Some c), emit (Chdir rp) w2)
              | Some (IOError d) \<Rightarrow>
                  (Inr None,
                   output_message MsgError (''Remote path does not exist: '' @ rp)
                     (emit (Chdir rp) w2))
              | Some e \<Rightarrow> (Inl e, emit (Chdir rp) w2)))"

definition is_string_type :: "FieldType \<Rightarrow> bool" where
  "is_string_type t = (t = FT_string \<or> t = FT_wstring \<or> t = FT_v_string \<or> t = FT_v_wstring)"

definition upload_ii_init ::
  "UploadPlugin \<Rightarrow> IncomingInterface \<Rightarrow> (string \<times> FieldType) list \<Rightarrow> world
     \<Rightarrow> (exn + bool) \<times> IncomingInterface \<times> world" where
  "upload_ii_init p ii record_info_in w =
     (if \<not> truthy (u_incoming_field p)
      then (Inr False, ii, output_message MsgError ''No incoming field selected.'' w)
      else
        (case get_field_by_name record_info_in (fmt (u_incoming_field p)) of
           None \<Rightarrow>
             (Inr False, ii\<lparr>in_field := None\<rparr>,
              output_message MsgError
                (''Field '' @ dq @ fmt (u_incoming_field p) @ dq @
                 '' was not found in the incoming data.'') w)
         | Some fld \<Rightarrow>
             if \<not> is_string_type (snd fld)
             then (Inr False, ii\<lparr>in_field := Some fld\<rparr>,
                   output_message MsgError
                     (''Field '' @ dq @ fst fld @ dq @
                      '' is not a string, so cannot contain a file name.'') w)
             else if upload_mode p = UPLOAD_BLOBS
             then (case get_field_by_name record_info_in (fmt (blob_field p)) of
                     None \<Rightarrow>
                       (Inl (OtherException ''AttributeError''),
                        ii\<lparr>in_field := Some fld, blob_field_obj := None\<rparr>, w)
                   | Some bf \<Rightarrow>
                       if snd bf \<noteq> FT_blob
                       then (Inr False, ii\<lparr>in_field := Some fld, blob_field_obj := Some bf\<rparr>,
                             output_message MsgError
                               (''Field '' @ dq @ fst fld @ dq @ '' does not contain blobs.'') w)
                       else (Inr True,
                             ii\<lparr>in_field := Some fld, blob_field_obj := Some bf,
                                file_counter := 0\<rparr>, w))
             else (Inr True, ii\<lparr>in_field := Some fld, file_counter := 0\<rparr>, w)))"

text \<open>Lines 431 to 443: what happens to the local file after the \<^verbatim>\<open>try\<close> around \<^verbatim>\<open>put\<close>.
  Both handlers take every exception.\<close>

definition handle_local_file ::
  "env \<Rightarrow> UploadPlugin \<Rightarrow> string \<Rightarrow> string \<Rightarrow> world \<Rightarrow> (exn + unit) \<times> world" where
  "handle_local_file ev p cur_fpath cur_fname w =
     (if u_file_handling p = DELETE_FILES then
        (case os_remove ev (trace w) cur_fpath of
           None \<Rightarrow> (Inr (), emit (OsRemove cur_fpath) w)
         | Some e \<Rightarrow>
             (Inr (),
              output_message MsgError
                (''Could not delete '' @ dq @ cur_fpath @ dq @ '': '' @ exn_str e)
                (emit (OsRemove cur_fpath) w)))
      else if u_file_handling p = MOVE_FILES then
        (case u_move_path p of
           None \<Rightarrow> (Inl (TypeError ''move_path is None''), w)
         | Some mp \<Rightarrow>
             (let new_fpath = os_path_join ev mp cur_fname
              in case os_rename ev (trace w) cur_fpath new_fpath of
                   None \<Rightarrow> (Inr (), emit (OsRename cur_fpath new_fpath) w)
                 | Some e \<Rightarrow>
                     (Inr (),
                      output_message MsgError
                        (''Could not move '' @ dq @ cur_fpath @ dq @ '' to '' @ dq @ new_fpath @
                         dq @ '': '' @ exn_str e)
                        (emit (OsRename cur_fpath new_fpath) w))))
      else (Inr (), w))"

text \<open>Lines 404 to 443: one record in mode \<open>UPLOAD_FILES\<close>. The result is whether the
  method goes on to count the record (\<open>Inr True\<close>) or has returned \<^verbatim>\<open>True\<close> before
  (\<open>Inr False\<close>).\<close>

definition upload_file ::
  "env \<Rightarrow> UploadPlugin \<Rightarrow> string \<Rightarrow> world \<Rightarrow> (exn + bool) \<times> world" where
  "upload_file ev p cur_fpath w =
     (if \<not> os_path_exists ev (trace w) cur_fpath
      then (Inr False,
            output_message MsgError (''File '' @ dq @ cur_fpath @ dq @ '' does not exist.'') w)
      else if \<not> os_path_isfile ev (trace w) cur_fpath
      then (Inr False,
            output_message MsgError
              (''File '' @ dq @ cur_fpath @ dq @
               '' is actually a folder. Please provide a file name.'') w)
      else
        (let cur_fname = snd (os_path_split ev cur_fpath);
             w1 = emit (Exists cur_fname) w
         in if sftp_exists ev (trace w) cur_fname \<and> \<not> overwrite p
            then (Inr False,
                  output_message MsgWarning
                    (''File '' @ dq @ fmt (remote_path (u_sftp p)) @ cur_fname @ dq @
                     '' already exists. Skipped.'') w1)
            else
              (let w2 = emit (Put cur_fpath) w1
               in case sftp_put ev (trace w1) cur_fpath of
                    None \<Rightarrow>
                      (case handle_local_file ev p cur_fpath cur_fname
                              (output_message StatusInfo
                                 (cur_fname @ '' successfully uploaded to '' @
                                  fmt (remote_path (u_sftp p)) @ cur_fname) w2) of
                         (Inl e, w3) \<Rightarrow> (Inl e, w3)
                       | (Inr u, w3) \<Rightarrow> (Inr True, w3))
                  | Some (IOError d) \<Rightarrow>
                      (case handle_local_file ev p cur_fpath cur_fname
                              (output_message MsgError
                                 (''File '' @ dq @ cur_fname @ dq @
                                  '' could not be uploaded: '' @ d) w2) of
                         (Inl e, w3) \<Rightarrow> (Inl e, w3)
                       | (Inr u, w3) \<Rightarrow> (Inr True, w3))
                  | Some e \<Rightarrow> (Inl e, w2))))"

text \<open>Lines 444 to 464: one record in mode \<open>UPLOAD_BLOBS\<close>, with the same result
  convention. The handler of \<^verbatim>\<open>putfo\<close> takes \<^verbatim>\<open>TypeError\<close> and \<^verbatim>\<open>IOError\<close>.\<close>

definition upload_blob ::
  "env \<Rightarrow> UploadPlugin \<Rightarrow> IncomingInterface \<Rightarrow> in_record \<Rightarrow> world \<Rightarrow> (exn + bool) \<times> world" where
  "upload_blob ev p ii r w =
     (let cur_fname = rec_name r
      in if cur_fname = []
         then (Inr False, output_message MsgError ''No filename provided. Cannot upload.'' w)
         else
           (let w1 = emit (Exists cur_fname) w
            in if sftp_exists ev (trace w) cur_fname \<and> \<not> overwrite p
               then (Inr False,
                     output_message MsgWarning
                       (''File '' @ dq @ fmt (remote_path (u_sftp p)) @ cur_fname @ dq @
                        '' already exists. Skipped.'') w1)
               else
                 (case blob_field_obj ii of
                    None \<Rightarrow> (Inl (OtherException ''AttributeError''), w1)
                  | Some bf \<Rightarrow>
                      (let w2 = emit (Putfo (rec_blob r) cur_fname) w1
                       in case sftp_putfo ev (trace w1) (rec_blob r) cur_fname of
                            None \<Rightarrow>
                              (Inr True,
                               output_message StatusInfo
                                 (cur_fname @ '' successfully uploaded to '' @
                                  fmt (remote_path (u_sftp p)) @ cur_fname) w2)
                          | Some (IOError d) \<Rightarrow>
                              (Inr True,
                               output_message MsgError
                                 (''Error uploading '' @ cur_fname @ '': '' @ d) w2)
                          | Some (TypeError d) \<Rightarrow>
                              (Inr True,
                               output_message MsgError
                                 (''Error uploading '' @ cur_fname @ '': '' @ d) w2)
                          | Some e \<Rightarrow> (Inl e, w2)))))"

text \<open>Lines 403 to 468: the record over the connection the interface holds.\<close>

definition upload_record ::
  "env \<Rightarrow> UploadPlugin \<Rightarrow> IncomingInterface \<Rightarrow> in_record \<Rightarrow> world
     \<Rightarrow> (exn + bool) \<times> IncomingInterface \<times> world" where
  "upload_record ev p ii r w =
     (case (if upload_mode p = UPLOAD_FILES then upload_file ev p (rec_name r) w
            else if upload_mode p = UPLOAD_BLOBS then upload_blob ev p ii r w
            else (Inr True, w)) of
        (Inl e, w1) \<Rightarrow> (Inl e, ii, w1)
      | (Inr False, w1) \<Rightarrow> (Inr True, ii, w1)
      | (Inr True, w1) \<Rightarrow> (Inr True, ii\<lparr>file_counter := file_counter ii + 1\<rparr>, w1))"

text \<open>\<^verbatim>\<open>ii_push_record\<close> of the upload engine.\<close>

definition upload_ii_push_record ::
  "env \<Rightarrow> UploadPlugin \<Rightarrow> IncomingInterface \<Rightarrow> in_record option \<Rightarrow> world
     \<Rightarrow> (exn + bool) \<times> IncomingInterface \<times> world" where
  "upload_ii_push_record ev p ii rcd w =
     (case rcd of
        None \<Rightarrow> (Inr False, ii, w)
      | Some r \<Rightarrow>
          if update_only ev then (Inr False, ii, w)
          else
            (case upload_validate_settings ev p False w of
               (False, w1) \<Rightarrow> (Inr False, ii, w1)
             | (True, w1) \<Rightarrow>
                 if in_field ii = None then (Inr False, ii, w1)
                 else
                   (case sftp_conn ii of
                      Some c \<Rightarrow> upload_record ev p ii r w1
                    | None \<Rightarrow>
                        (case upload_init_sftp ev p w1 of
                           (Inl e, w2) \<Rightarrow> (Inl e, ii, w2)
                         | (Inr None, w2) \<Rightarrow> (Inr False, ii, w2)
                         | (Inr (Some c), w2) \<Rightarrow>
                             upload_record ev p (ii\<lparr>sftp_conn := Some c\<rparr>) r w2))))"

definition upload_ii_close :: "IncomingInterface \<Rightarrow> world \<Rightarrow> IncomingInterface \<times> world" where
  "upload_ii_close ii w =
     (case sftp_conn ii of
        Some c \<Rightarrow> (ii\<lparr>sftp_conn := None\<rparr>, emit (Close c) w)
      | None \<Rightarrow> (ii, w))"

section \<open>Runs over an incoming connection\<close>

text \<open>The state of a fresh \<^verbatim>\<open>IncomingInterface\<close>, as its constructor leaves it.\<close>

definition new_interface :: IncomingInterface where
  "new_interface = \<lparr>in_field = None, blob_field_obj = None, sftp_conn = None, file_counter = 0\<rparr>"



fun upload_push_records ::
  "env \<Rightarrow> UploadPlugin \<Rightarrow> IncomingInterface \<Rightarrow> in_record list \<Rightarrow> world
     \<Rightarrow> (exn + bool) \<times> IncomingInterface \<times> world" where
  "upload_push_records ev p ii [] w = (Inr True, ii, w)"
| "upload_push_records ev p ii (r # rs) w =
     (case upload_ii_push_record ev p ii (Some r) w of
        (Inr True, ii1, w1) \<Rightarrow> upload_push_records ev p ii1 rs w1
      | (Inr False, ii1, w1) \<Rightarrow> (Inr False, ii1, w1)
      | (Inl e, ii1, w1) \<Rightarrow> (Inl e, ii1, w1))"

definition upload_feed_records ::
  "env \<Rightarrow> UploadPlugin \<Rightarrow> (string \<times> FieldType) list \<Rightarrow> in_record list \<Rightarrow> world
     \<Rightarrow> (exn + bool) \<times> IncomingInterface \<times> world" where
  "upload_feed_records ev p record_info_in rs w =
     (case upload_ii_init p new_interface record_info_in w of
        (Inr True, ii1, w1) \<Rightarrow> upload_push_records ev p ii1 rs w1
      | (Inr False, ii1, w1) \<Rightarrow> (Inr False, ii1, w1)
      | (Inl e, ii1, w1) \<Rightarrow> (Inl e, ii1, w1))"

section \<open>Reading a trace\<close>

fun is_warning :: "event \<Rightarrow> bool" where
  "is_warning (Message MsgWarning m) = True"
| "is_warning e = False"

fun is_error :: "event \<Rightarrow> bool" where
  "is_error (Message MsgError m) = True"
| "is_error e = False"

text \<open>A call of \<^verbatim>\<open>pysftp.Connection(...)\<close>, whether it returned or raised.\<close>

fun is_connect :: "event \<Rightarrow> bool" where
  "is_connect (Connected c) = True"
| "is_connect ConnectFailed = True"
| "is_connect e = False"

fun is_close :: "event \<Rightarrow> bool" where
  "is_close (Close c) = True"
| "is_close e = False"

text \<open>A transfer call: \<^verbatim>\<open>get\<close>, \<^verbatim>\<open>put\<close> or \<^verbatim>\<open>putfo\<close>.\<close>

fun is_transfer :: "event \<Rightarrow> bool" where
  "is_transfer (Get a b) = True"
| "is_transfer (Put a) = True"
| "is_transfer (Putfo a b) = True"
| "is_transfer e = False"

text \<open>A call that removes or renames a remote file, and one that removes or renames a
  local file.\<close>

fun is_remote_change :: "event \<Rightarrow> bool" where
  "is_remote_change (Remove a) = True"
| "is_remote_change (Rename a b) = True"
| "is_remote_change e = False"

fun is_local_change :: "event \<Rightarrow> bool" where
  "is_local_change (OsRemove a) = True"
| "is_local_change (OsRename a b) = True"
| "is_local_change e = False"

fun is_dir_check :: "event \<Rightarrow> bool" where
  "is_dir_check (Isdir a) = True"
| "is_dir_check e = False"

section \<open>Example surroundings\<close>

text \<open>A server that accepts the connection and on which everything succeeds: the
  remote directory holds the files \<^verbatim>\<open>a.txt\<close> and \<^verbatim>\<open>b.txt\<close>; local paths use \<^verbatim>\<open>/\<close>.\<close>

definition path_head :: "string \<Rightarrow> string" where
  "path_head p = rev (dropWhile (\<lambda>c. c \<noteq> CHR ''/'') (rev p))"

definition path_tail :: "string \<Rightarrow> string" where
  "path_tail p = rev (takeWhile (\<lambda>c. c \<noteq> CHR ''/'') (rev p))"

definition attr_of :: "string \<Rightarrow> SFTPAttributes" where
  "attr_of n = \<lparr>att_filename = n, st_size = 100, st_uid = 1000, st_gid = 1000,
                st_mode = 33188, st_atime = 1600000000, st_mtime = 1600000000\<rparr>"

definition calm_env :: env where
  "calm_env =
     \<lparr>update_only = False,
      os_path_exists = (\<lambda>h p. True),
      os_path_isfile = (\<lambda>h p. True),
      os_path_isdir = (\<lambda>h p. True),
      os_path_join = (\<lambda>a b. a @ b),
      os_path_split = (\<lambda>p. (path_head p, path_tail p)),
      os_path_dirname = path_head,
      os_mkdir = (\<lambda>h p. None),
      os_remove = (\<lambda>h p. None),
      os_rename = (\<lambda>h a b. None),
      open_read = (\<lambda>h p. Inr ''data''),
      create_temp_file_name = (\<lambda>h. ''/tmp/t.tmp''),
      known_hosts_path = ''/home/u/.ssh/known_hosts'',
      hostkeys_save = (\<lambda>h p. None),
      connection = (\<lambda>h. Inr (''ssh-rsa'', ''AAAAB3'')),
      sftp_isdir = (\<lambda>h p. p = ''/in/'' \<or> p = ''/done''),
      sftp_exists = (\<lambda>h p. p = ''a.txt'' \<or> p = ''b.txt'' \<or> p = ''/done''),
      sftp_isfile = (\<lambda>h p. p = ''a.txt'' \<or> p = ''b.txt''),
      sftp_chdir = (\<lambda>h p. None),
      sftp_listdir_attr = (\<lambda>h. [attr_of ''a.txt'', attr_of ''b.txt'']),
      sftp_stat = (\<lambda>h n. attr_of n),
      sftp_get = (\<lambda>h a b. None),
      sftp_put = (\<lambda>h a. None),
      sftp_putfo = (\<lambda>h a b. None),
      sftp_remove = (\<lambda>h a. None),
      sftp_rename = (\<lambda>h a b. None),
      sftp_pwd = (\<lambda>h. ''/in''),
      sftp_normalize = (\<lambda>h p. p)\<rparr>"

definition example_settings :: sftp_settings where
  "example_settings =
     \<lparr>hostname = Some ''sftp.example.org'', port = 22, username = Some ''u'',
      password = Some ''pw'', key_filepath = None, key_passphrase = None,
      remote_path = Some ''/in/''\<rparr>"

text \<open>A download to a local folder that deletes the remote files afterwards, and the
  same as a download to blobs that keeps them.\<close>

definition example_plugin :: AyxPlugin where
  "example_plugin =
     \<lparr>sftp = example_settings, move_path = None, tool_mode = DOWNLOAD_TO_PATH,
      local_path = Some ''/out/'', blobfield = ''DownloadedData'',
      file_handling = DELETE_FILES, incoming_field = Some ''File'',
      input_optional = False, output_recordinfo = False\<rparr>"

definition example_blob_plugin :: AyxPlugin where
  "example_blob_plugin =
     example_plugin\<lparr>tool_mode := DOWNLOAD_TO_BLOB, local_path := None,
                     file_handling := KEEP_FILES\<rparr>"

definition example_upload_plugin :: UploadPlugin where
  "example_upload_plugin =
     \<lparr>u_sftp = example_settings, upload_mode = UPLOAD_FILES,
      u_file_handling = DELETE_FILES, u_move_path = None,
      u_incoming_field = Some ''File'', blob_field = None, overwrite = False\<rparr>"

text \<open>A world whose known-hosts store names the example host, and one with an empty
  store.\<close>

definition known_world :: world where
  "known_world =
     \<lparr>trace = [],
      known_hosts = [\<lparr>hostnames = [''sftp.example.org''], keytype = ''ssh-rsa'',
                      keydata = ''AAAAB3''\<rparr>]\<rparr>"

definition fresh_world :: world where
  "fresh_world = \<lparr>trace = [], known_hosts = []\<rparr>"

definition item_a :: file_item where
  "item_a = \<lparr>filename = ''a.txt'', size_bytes = 100, uid = 1000, gid = 1000, mode = 33188,
             atime = 1600000000, mtime = 1600000000, is_file = Some True, is_dir = Some False\<rparr>"

text \<open>Surroundings in which one call fails: the download of \<^verbatim>\<open>a.txt\<close>; every upload;
  the download of \<^verbatim>\<open>a.txt\<close> without leaving a local file, so that opening it raises;
  a remote path that is no directory; a remote path that cannot be entered; a remote
  path that is a regular file, for which the library's \<^verbatim>\<open>chdir\<close> raises its own
  \<^verbatim>\<open>SFTPError\<close>.\<close>

definition get_fails_env :: env where
  "get_fails_env =
     calm_env\<lparr>sftp_get := (\<lambda>h a b. if a = ''a.txt'' then Some (IOError ''timed out'') else None)\<rparr>"

definition put_fails_env :: env where
  "put_fails_env = calm_env\<lparr>sftp_put := (\<lambda>h a. Some (IOError ''timed out''))\<rparr>"

definition no_temp_env :: env where
  "no_temp_env =
     get_fails_env\<lparr>open_read :=
       (\<lambda>h p. if h \<noteq> [] \<and> is_error (last h) then Inl (IOError ''No such file or directory'')
              else Inr ''data'')\<rparr>"

definition not_dir_env :: env where
  "not_dir_env = calm_env\<lparr>sftp_isdir := (\<lambda>h p. False)\<rparr>"

definition chdir_fails_env :: env where
  "chdir_fails_env = calm_env\<lparr>sftp_chdir := (\<lambda>h p. Some (IOError ''No such file''))\<rparr>"

definition path_is_file_env :: env where
  "path_is_file_env =
     calm_env\<lparr>sftp_isdir := (\<lambda>h p. False),
              sftp_chdir := (\<lambda>h p. Some (OtherException ''SFTPError: Not a directory''))\<rparr>"

definition record_x :: in_record where
  "record_x = \<lparr>rec_name = ''/data/x.csv'', rec_blob = []\<rparr>"




definition record_sub :: in_record where
  "record_sub = \<lparr>rec_name = ''sub'', rec_blob = []\<rparr>"



text \<open>An interface that holds a connection, and a record that names a remote directory.\<close>

definition ready_interface :: IncomingInterface where
  "ready_interface =
     \<lparr>in_field = Some (''File'', FT_v_wstring), blob_field_obj = Some (''Data'', FT_blob),
      sftp_conn = Some 0, file_counter = 0\<rparr>"


text \<open>The name under which a record is uploaded: the last component of the local path
  in mode \<open>UPLOAD_FILES\<close>, the incoming name itself in mode \<open>UPLOAD_BLOBS\<close>; and the
  warning both modes show when that name exists on the server.\<close>

definition target_name :: "env \<Rightarrow> UploadPlugin \<Rightarrow> in_record \<Rightarrow> string" where
  "target_name ev p r =
     (if upload_mode p = UPLOAD_FILES then snd (os_path_split ev (rec_name r)) else rec_name r)"

definition exists_warning :: "UploadPlugin \<Rightarrow> string \<Rightarrow> event" where
  "exists_warning p name =
     Message MsgWarning
       (''File '' @ dq @ fmt (remote_path (u_sftp p)) @ name @ dq @ '' already exists. Skipped.'')"

text \<open>A record for a local file whose name exists on the example server, and an
  upload of blobs.\<close>

definition record_a :: in_record where
  "record_a = \<lparr>rec_name = ''/data/a.txt'', rec_blob = []\<rparr>"

definition record_blob_a :: in_record where
  "record_blob_a = \<lparr>rec_name = ''a.txt'', rec_blob = ''xyz''\<rparr>"

definition example_blob_upload_plugin :: UploadPlugin where
  "example_blob_upload_plugin =
     example_upload_plugin\<lparr>upload_mode := UPLOAD_BLOBS, blob_field := Some ''Data''\<rparr>"

text \<open>The two warnings and the information message of \<^verbatim>\<open>_init_sftp\<close>, and the directory
  creation that precedes the saving of the known-hosts file when its directory is
  missing.\<close>

definition unknown_host_warning :: "sftp_settings \<Rightarrow> event" where
  "unknown_host_warning s =
     Message MsgWarning
       (''Unkown host '' @ fmt (hostname s) @ ''. Any host key will be accepted.'')"

definition caching_warning :: event where
  "caching_warning =
     Message MsgWarning ''Connected to unknown host. Caching its hostkey to known_hosts.''"

definition connected_info :: "sftp_settings \<Rightarrow> event" where
  "connected_info s = Message MsgInfo (''Connected successfully to '' @ fmt (hostname s))"

definition hosts_dir_events :: "env \<Rightarrow> event list \<Rightarrow> event list" where
  "hosts_dir_events ev h =
     (if \<not> os_path_exists ev h (os_path_dirname ev (known_hosts_path ev))
      then [Mkdir (os_path_dirname ev (known_hosts_path ev))] else [])"







section \<open>Properties of the settings extraction\<close>

lemma dropWhile_isspace_Nil: "dropWhile isspace s = [] \<longleftrightarrow> (\<forall>c \<in> set s. isspace c)"
  by (simp add: dropWhile_eq_Nil_conv)

lemma dropWhile_head_not_space: "dropWhile isspace s = c # cs \<Longrightarrow> \<not> isspace c"
  by (metis hd_dropWhile list.sel(1) list.distinct(1))

lemma strip_Nil_iff: "strip s = [] \<longleftrightarrow> (\<forall>c \<in> set s. isspace c)"
proof
  assume e: "strip s = []"
  show "\<forall>c \<in> set s. isspace c"
  proof (cases "dropWhile isspace s")
    case Nil
    then show ?thesis by (simp add: dropWhile_isspace_Nil)
  next
    case (Cons c cs)
    from e have "\<forall>x \<in> set (dropWhile isspace s). isspace x"
      by (simp add: strip_def dropWhile_eq_Nil_conv)
    with Cons have "isspace c" by simp
    with dropWhile_head_not_space [OF Cons] show ?thesis by simp
  qed
next
  assume "\<forall>c \<in> set s. isspace c"
  then have "dropWhile isspace s = []" by (simp add: dropWhile_isspace_Nil)
  then have "rev (dropWhile isspace s) = []" by simp
  then show "strip s = []" unfolding strip_def by (auto dest: set_dropWhileD)
qed

lemma strip_no_leading_space: "strip s = c # cs \<Longrightarrow> \<not> isspace c"
proof -
  assume a: "strip s = c # cs"
  let ?d = "dropWhile isspace s"
  let ?r = "dropWhile isspace (rev ?d)"
  from a have ne: "?r \<noteq> []" unfolding strip_def by auto
  then have dne: "?d \<noteq> []" by (auto dest: set_dropWhileD)
  then obtain x xs where d: "?d = x # xs" by (cases ?d) auto
  from dropWhile_head_not_space [OF d] have nx: "\<not> isspace x" .
  have "rev ?d = rev xs @ [x]" using d by simp
  then have "?r = dropWhile isspace (rev xs) @ [x]"
    using nx by (simp add: dropWhile_append3 dropWhile_append)
  then have "strip s = x # rev (dropWhile isspace (rev xs))" by (simp add: strip_def)
  with a nx show ?thesis by simp
qed

lemma strip_no_trailing_space: "strip s \<noteq> [] \<Longrightarrow> \<not> isspace (last (strip s))"
proof -
  assume a: "strip s \<noteq> []"
  let ?r = "dropWhile isspace (rev (dropWhile isspace s))"
  from a have ne: "?r \<noteq> []" unfolding strip_def by auto
  then obtain x xs where r: "?r = x # xs" by (cases ?r) auto
  from dropWhile_head_not_space [OF r] have "\<not> isspace x" .
  moreover have "last (strip s) = x" using r by (simp add: strip_def)
  ultimately show ?thesis by simp
qed

text \<open>
  C10. For every key, \<open>prep_xmltext\<close> is \<open>None\<close> when the element is absent, when it has
  no text, and when its text is empty or whitespace only; otherwise it is the text with
  the surrounding whitespace stripped (the result neither starts nor ends with a
  whitespace character). In no case is the result the empty string.
\<close>

theorem prep_xmltext_spec:
  "(et_find et key = None \<longrightarrow> prep_xmltext et key = None) \<and>
   (et_find et key = Some None \<longrightarrow> prep_xmltext et key = None) \<and>
   (\<forall>s. et_find et key = Some (Some s) \<and> (\<forall>c \<in> set s. isspace c)
        \<longrightarrow> prep_xmltext et key = None) \<and>
   (\<forall>s. et_find et key = Some (Some s) \<and> \<not> (\<forall>c \<in> set s. isspace c)
        \<longrightarrow> prep_xmltext et key = Some (strip s) \<and>
            \<not> isspace (hd (strip s)) \<and> \<not> isspace (last (strip s))) \<and>
   prep_xmltext et key \<noteq> Some []"
proof (intro conjI allI impI)
  assume "et_find et key = None"
  then show "prep_xmltext et key = None"
    by (simp add: prep_xmltext_def et_findtext_def)
next
  assume "et_find et key = Some None"
  then show "prep_xmltext et key = None"
    by (simp add: prep_xmltext_def et_findtext_def)
next
  fix s assume "et_find et key = Some (Some s) \<and> (\<forall>c \<in> set s. isspace c)"
  then have f: "et_find et key = Some (Some s)" and e: "strip s = []"
    by (simp_all add: strip_Nil_iff)
  show "prep_xmltext et key = None"
    using f e by (simp add: prep_xmltext_def et_findtext_def)
next
  fix s assume h: "et_find et key = Some (Some s) \<and> \<not> (\<forall>c \<in> set s. isspace c)"
  then have f: "et_find et key = Some (Some s)" and ne: "strip s \<noteq> []"
    by (simp_all add: strip_Nil_iff)
  from h have sne: "s \<noteq> []" by auto
  show "prep_xmltext et key = Some (strip s)"
    using f ne sne by (simp add: prep_xmltext_def et_findtext_def)
  from ne obtain c cs where "strip s = c # cs" by (cases "strip s") auto
  then show "\<not> isspace (hd (strip s))"
    using strip_no_leading_space by fastforce
  show "\<not> isspace (last (strip s))"
    using ne by (rule strip_no_trailing_space)
next
  show "prep_xmltext et key \<noteq> Some []"
    by (auto simp: prep_xmltext_def Let_def split: option.splits if_splits)
qed

theorem prep_xmltext_spec_witness:
  "et_find example_config ''Port'' = None \<and>
   prep_xmltext example_config ''Port'' = None \<and>
   et_find example_config ''Username'' = Some None \<and>
   prep_xmltext example_config ''Username'' = None \<and>
   et_find example_config ''Password'' = Some (Some ''   '') \<and>
   list_all isspace ''   '' \<and>
   prep_xmltext example_config ''Password'' = None \<and>
   et_find example_config ''Hostname'' = Some (Some ''  sftp.example.org '') \<and>
   \<not> list_all isspace ''  sftp.example.org '' \<and>
   prep_xmltext example_config ''Hostname'' = Some ''sftp.example.org''"
proof -
  have f1: "et_find example_config ''Port'' = None"
    and f2: "et_find example_config ''Username'' = Some None"
    and f3: "et_find example_config ''Password'' = Some (Some ''   '')"
    and f4: "et_find example_config ''Hostname'' = Some (Some ''  sftp.example.org '')"
    by (simp_all add: example_config_def)
  have l3: "list_all isspace ''   ''"
    and l4: "\<not> list_all isspace ''  sftp.example.org ''"
    and st: "strip ''  sftp.example.org '' = ''sftp.example.org''"
    by (simp_all add: isspace_def strip_def)
  from l3 have s3: "\<forall>c \<in> set ''   ''. isspace c"
    unfolding list_all_iff .
  from l4 have s4: "\<not> (\<forall>c \<in> set ''  sftp.example.org ''. isspace c)"
    unfolding list_all_iff .
  from prep_xmltext_spec [of example_config "''Port''"] f1
  have r1: "prep_xmltext example_config ''Port'' = None" by blast
  from prep_xmltext_spec [of example_config "''Username''"] f2
  have r2: "prep_xmltext example_config ''Username'' = None" by blast
  from prep_xmltext_spec [of example_config "''Password''"] f3 s3
  have r3: "prep_xmltext example_config ''Password'' = None" by blast
  from prep_xmltext_spec [of example_config "''Hostname''"] f4 s4
  have "prep_xmltext example_config ''Hostname'' = Some (strip ''  sftp.example.org '')"
    by blast
  with st have r4: "prep_xmltext example_config ''Hostname'' = Some ''sftp.example.org''"
    by simp
  from f1 f2 f3 f4 l3 l4 r1 r2 r3 r4 show ?thesis by blast
qed

section \<open>Evaluations of the engines where a call fails\<close>

text \<open>
  C1. A failed transfer does not keep the file handling from being applied. The download
  of \<^verbatim>\<open>a.txt\<close> raises \<^verbatim>\<open>IOError\<close>; \<^verbatim>\<open>_process_file\<close> shows the error, pushes the record and
  then removes the remote file. The upload of \<^verbatim>\<open>/data/x.csv\<close> raises \<^verbatim>\<open>IOError\<close>;
  \<^verbatim>\<open>ii_push_record\<close> shows the error and then deletes the local file.
\<close>

theorem post_handling_after_failed_transfer:
  "sftp_get get_fails_env [] ''a.txt'' ''/out/a.txt'' = Some (IOError ''timed out'') \<and>
   fst (process_file get_fails_env example_plugin item_a known_world) = Inr () \<and>
   filter is_remote_change
     (trace (snd (process_file get_fails_env example_plugin item_a known_world))) =
     [Remove ''/in/a.txt''] \<and>
   sftp_put put_fails_env [Exists ''x.csv''] ''/data/x.csv'' = Some (IOError ''timed out'') \<and>
   fst (upload_file put_fails_env example_upload_plugin ''/data/x.csv'' known_world) = Inr True \<and>
   filter is_local_change
     (trace (snd (upload_file put_fails_env example_upload_plugin ''/data/x.csv'' known_world))) =
     [OsRemove ''/data/x.csv'']"
  by code_simp

text \<open>
  C3. A connection that was opened is not closed on the early returns of \<^verbatim>\<open>_init_sftp\<close>.
  In the download engine the remote path is no directory: one connection was opened, the
  run returns \<^verbatim>\<open>False\<close> and the trace holds no \<^verbatim>\<open>close\<close>. In the upload engine \<^verbatim>\<open>chdir\<close>
  raises \<^verbatim>\<open>IOError\<close>: the interface never stores the connection, and \<^verbatim>\<open>ii_close\<close> closes
  nothing.
\<close>

theorem session_left_open_on_early_return:
  "fst (pi_push_all_records not_dir_env example_plugin known_world) = Inr False \<and>
   filter is_connect (trace (snd (pi_push_all_records not_dir_env example_plugin known_world))) =
     [Connected 1] \<and>
   filter is_close (trace (snd (pi_push_all_records not_dir_env example_plugin known_world))) = [] \<and>
   fst (upload_feed_records chdir_fails_env example_upload_plugin [(''File'', FT_v_wstring)]
          [record_x] known_world) = Inr False \<and>
   filter is_connect
     (trace (snd (upload_ii_close
        (fst (snd (upload_feed_records chdir_fails_env example_upload_plugin
                     [(''File'', FT_v_wstring)] [record_x] known_world)))
        (snd (snd (upload_feed_records chdir_fails_env example_upload_plugin
                     [(''File'', FT_v_wstring)] [record_x] known_world)))))) = [Connected 0] \<and>
   filter is_close
     (trace (snd (upload_ii_close
        (fst (snd (upload_feed_records chdir_fails_env example_upload_plugin
                     [(''File'', FT_v_wstring)] [record_x] known_world)))
        (snd (snd (upload_feed_records chdir_fails_env example_upload_plugin
                     [(''File'', FT_v_wstring)] [record_x] known_world)))))) = []"
  by code_simp

text \<open>
  C7. The upload engine enters the remote path without checking it. The remote path is
  a regular file: \<^verbatim>\<open>_init_sftp\<close> of the upload engine calls \<^verbatim>\<open>chdir\<close> with no \<^verbatim>\<open>isdir\<close>
  before it, and the library's exception leaves the method with no message shown. The
  download engine, in the same surroundings, checks with \<^verbatim>\<open>isdir\<close>, shows one error and
  returns \<^verbatim>\<open>False\<close>.
\<close>

theorem upload_enters_remote_path_unchecked:
  "sftp_isdir path_is_file_env [] ''/in/'' = False \<and>
   fst (upload_init_sftp path_is_file_env example_upload_plugin known_world) =
     Inl (OtherException ''SFTPError: Not a directory'') \<and>
   trace (snd (upload_init_sftp path_is_file_env example_upload_plugin known_world)) =
     [Connected 0, Message MsgInfo ''Connected successfully to sftp.example.org'',
      Chdir ''/in/''] \<and>
   fst (init_sftp path_is_file_env example_plugin known_world) = Inr None \<and>
   filter is_dir_check (trace (snd (init_sftp path_is_file_env example_plugin known_world))) =
     [Isdir ''/in/''] \<and>
   length (filter is_error (trace (snd (init_sftp path_is_file_env example_plugin known_world)))) = 1"
  by code_simp

text \<open>
  C2. A transfer error is not always caught at the item. The directory holds \<^verbatim>\<open>a.txt\<close>
  and \<^verbatim>\<open>b.txt\<close>, the mode is \<open>DOWNLOAD_TO_BLOB\<close>; the download of \<^verbatim>\<open>a.txt\<close> raises
  \<^verbatim>\<open>IOError\<close> and leaves no temporary file. The handler shows the error, then
  \<^verbatim>\<open>open(out_fname, 'rb')\<close> raises outside any \<^verbatim>\<open>try\<close>: the exception leaves
  \<^verbatim>\<open>pi_push_all_records\<close>, \<^verbatim>\<open>b.txt\<close> is never transferred and the connection is not
  closed.
\<close>

lemma unreadable_temp_run:
  "pi_push_all_records no_temp_env example_blob_plugin known_world =
     (Inl (IOError ''No such file or directory''),
      \<lparr>trace =
         [UpdateProgress 0 1, Connected 1,
          Message MsgInfo ''Connected successfully to sftp.example.org'',
          Isdir ''/in/'', Chdir ''/in/'', ListdirAttr,
          Isfile ''a.txt'', Isdir ''a.txt'', Isfile ''b.txt'', Isdir ''b.txt'',
          OutputInit, UpdateProgress 0 2,
          CreateTempFileName ''/tmp/t.tmp'', Get ''a.txt'' ''/tmp/t.tmp'',
          Message MsgError (''Error transferring file '' @ dq @ ''a.txt'' @ dq @ '': timed out''),
          OpenRead ''/tmp/t.tmp''],
       known_hosts = known_hosts known_world\<rparr>)"
  by code_simp

theorem batch_aborted_by_unreadable_temp_file:
  "map att_filename (sftp_listdir_attr no_temp_env []) = [''a.txt'', ''b.txt''] \<and>
   fst (pi_push_all_records no_temp_env example_blob_plugin known_world) =
     Inl (IOError ''No such file or directory'') \<and>
   filter is_transfer
     (trace (snd (pi_push_all_records no_temp_env example_blob_plugin known_world))) =
     [Get ''a.txt'' ''/tmp/t.tmp''] \<and>
   filter is_close
     (trace (snd (pi_push_all_records no_temp_env example_blob_plugin known_world))) = []"
proof -
  have "map att_filename (sftp_listdir_attr no_temp_env []) = [''a.txt'', ''b.txt'']"
    by code_simp
  then show ?thesis
    by (simp add: unreadable_temp_run)
qed

section \<open>How the methods extend the trace\<close>

lemma trace_emit [simp]: "trace (emit e w) = trace w @ [e]"
  by (simp add: emit_def)

lemma known_hosts_emit [simp]: "known_hosts (emit e w) = known_hosts w"
  by (simp add: emit_def)

lemma trace_output_message [simp]: "trace (output_message t m w) = trace w @ [Message t m]"
  by (simp add: output_message_def)

lemma known_hosts_output_message [simp]: "known_hosts (output_message t m w) = known_hosts w"
  by (simp add: output_message_def)

lemma filter_output_messages:
  "(\<And>m. \<not> P (Message t m)) \<Longrightarrow> filter P (trace (output_messages t ms w)) = filter P (trace w)"
  by (induction ms arbitrary: w) simp_all


lemma filter_upload_validate_settings:
  "(\<And>m. \<not> P (Message MsgError m)) \<Longrightarrow>
   filter P (trace (snd (upload_validate_settings ev p silent w))) = filter P (trace w)"
  by (simp add: upload_validate_settings_def Let_def filter_output_messages)








section \<open>The temporary file of a download to a blob\<close>




section \<open>Items that are no files\<close>

text \<open>Connecting emits messages, the connection event, and the creation of the directory
  and the saving of the known-hosts file; entering the remote path adds the directory
  check and the change of directory.\<close>

lemma filter_cache_hostkey:
  assumes "\<And>t m. \<not> P (Message t m)" and "\<And>a. \<not> P (Mkdir a)" and "\<And>a. \<not> P (HostkeysSave a)"
  shows "filter P (trace (snd (cache_hostkey ev host kname key c w))) = filter P (trace w)"
proof (cases "os_path_exists ev (trace w) (os_path_dirname ev (known_hosts_path ev))")
  case True
  then show ?thesis using assms
    by (simp add: cache_hostkey_def Let_def split: option.splits)
next
  case False
  then show ?thesis using assms
    by (cases "os_mkdir ev (trace w) (os_path_dirname ev (known_hosts_path ev))")
       (simp_all add: cache_hostkey_def Let_def split: option.splits)
qed

lemma filter_open_connection:
  assumes m: "\<And>t m. \<not> P (Message t m)" and k: "\<And>a. \<not> P (Mkdir a)"
    and s: "\<And>a. \<not> P (HostkeysSave a)"
  shows "\<exists>e. is_connect e \<and>
             filter P (trace (snd (open_connection ev st w))) = filter P (trace w) @ filter P [e]"
proof (cases "hostkeys_lookup (known_hosts w) (fmt (hostname st)) = None")
  case True
  let ?w1 = "output_message MsgWarning
               (''Unkown host '' @ fmt (hostname st) @ ''. Any host key will be accepted.'') w"
  show ?thesis
  proof (cases "connection ev (trace ?w1)")
    case (Inl e)
    then have "filter P (trace (snd (open_connection ev st w))) =
               filter P (trace w) @ filter P [ConnectFailed]"
      using True m by (simp add: open_connection_def Let_def)
    then show ?thesis by (intro exI [of _ ConnectFailed]) simp
  next
    case (Inr kk)
    obtain kname key where kk: "kk = (kname, key)" by (cases kk)
    have "filter P (trace (snd (open_connection ev st w))) =
          filter P (trace w) @ filter P [Connected (length (trace ?w1))]"
      using True Inr kk m
      by (simp add: open_connection_def Let_def filter_cache_hostkey [OF m k s])
    then show ?thesis by (intro exI [of _ "Connected (length (trace ?w1))"]) simp
  qed
next
  case False
  then obtain es where lk: "hostkeys_lookup (known_hosts w) (fmt (hostname st)) = Some es"
    by auto
  show ?thesis
  proof (cases "connection ev (trace w)")
    case (Inl e)
    then have "filter P (trace (snd (open_connection ev st w))) =
               filter P (trace w) @ filter P [ConnectFailed]"
      using lk m by (simp add: open_connection_def Let_def)
    then show ?thesis by (intro exI [of _ ConnectFailed]) simp
  next
    case (Inr kk)
    obtain kname key where kk: "kk = (kname, key)" by (cases kk)
    have "filter P (trace (snd (open_connection ev st w))) =
          filter P (trace w) @ filter P [Connected (length (trace w))]"
      using lk Inr kk m by (simp add: open_connection_def Let_def)
    then show ?thesis by (intro exI [of _ "Connected (length (trace w))"]) simp
  qed
qed

lemma filter_open_connection_plain:
  assumes m: "\<And>t m. \<not> P (Message t m)" and k: "\<And>a. \<not> P (Mkdir a)"
    and s: "\<And>a. \<not> P (HostkeysSave a)"
    and c: "\<And>c. \<not> P (Connected c)" and f: "\<not> P ConnectFailed"
  shows "filter P (trace (snd (open_connection ev st w))) = filter P (trace w)"
proof -
  from filter_open_connection [OF m k s, of ev st w] obtain e where
    e: "is_connect e" and
    t: "filter P (trace (snd (open_connection ev st w))) = filter P (trace w) @ filter P [e]"
    by blast
  from e c f have "\<not> P e" by (cases e) simp_all
  with t show ?thesis by simp
qed



lemma filter_upload_init_sftp_rest:
  assumes m: "\<And>t m. \<not> P (Message t m)" and c: "\<And>a. \<not> P (Chdir a)"
  shows "filter P (trace (snd (upload_init_sftp ev p w))) =
         filter P (trace (snd (open_connection ev (u_sftp p) w)))"
proof (cases "open_connection ev (u_sftp p) w")
  case (Pair r w1)
  show ?thesis
  proof (cases r)
    case None
    then show ?thesis using Pair by (simp add: upload_init_sftp_def)
  next
    case (Some cn)
    then show ?thesis using Pair m c
      by (simp add: upload_init_sftp_def Let_def split: option.splits exn.splits)
  qed
qed


lemma transfers_upload_init_sftp:
  "filter is_transfer (trace (snd (upload_init_sftp ev p w))) = filter is_transfer (trace w)"
  by (simp add: filter_upload_init_sftp_rest filter_open_connection_plain)














section \<open>Uploads of names that exist on the server\<close>

text \<open>With the remote name present and \<^verbatim>\<open>overwrite\<close> off, neither upload mode reaches its
  transfer call.\<close>

lemma upload_file_exists:
  assumes ex: "sftp_exists ev (trace w) (snd (os_path_split ev path))" and no: "\<not> overwrite p"
  shows "filter is_transfer (trace (snd (upload_file ev p path w))) = filter is_transfer (trace w)"
    and "os_path_exists ev (trace w) path \<Longrightarrow> os_path_isfile ev (trace w) path \<Longrightarrow>
         upload_file ev p path w =
           (Inr False,
            emit (exists_warning p (snd (os_path_split ev path)))
              (emit (Exists (snd (os_path_split ev path))) w))"
  using ex no
  by (simp_all add: upload_file_def Let_def exists_warning_def output_message_def)

lemma upload_blob_exists:
  assumes ex: "sftp_exists ev (trace w) (rec_name r)" and no: "\<not> overwrite p"
  shows "filter is_transfer (trace (snd (upload_blob ev p ii r w))) = filter is_transfer (trace w)"
    and "rec_name r \<noteq> [] \<Longrightarrow>
         upload_blob ev p ii r w =
           (Inr False, emit (exists_warning p (rec_name r)) (emit (Exists (rec_name r)) w))"
  using ex no
  by (simp_all add: upload_blob_def Let_def exists_warning_def output_message_def)

lemma upload_record_exists:
  assumes ex: "sftp_exists ev (trace w) (target_name ev p r)" and no: "\<not> overwrite p"
  shows "filter is_transfer (trace (snd (snd (upload_record ev p ii r w)))) =
         filter is_transfer (trace w)"
proof (cases "upload_mode p")
  case UPLOAD_NONE_MODE
  then show ?thesis by (simp add: upload_record_def)
next
  case UPLOAD_FILES
  obtain x w1 where u: "upload_file ev p (rec_name r) w = (x, w1)"
    by (cases "upload_file ev p (rec_name r) w")
  from ex UPLOAD_FILES have "sftp_exists ev (trace w) (snd (os_path_split ev (rec_name r)))"
    by (simp add: target_name_def)
  from upload_file_exists(1) [OF this no] u
  have "filter is_transfer (trace w1) = filter is_transfer (trace w)" by simp
  then show ?thesis using UPLOAD_FILES u
    by (simp add: upload_record_def split: sum.splits bool.splits)
next
  case UPLOAD_BLOBS
  obtain x w1 where u: "upload_blob ev p ii r w = (x, w1)"
    by (cases "upload_blob ev p ii r w")
  from ex UPLOAD_BLOBS have "sftp_exists ev (trace w) (rec_name r)"
    by (simp add: target_name_def)
  from upload_blob_exists(1) [OF this no, of ii] u
  have "filter is_transfer (trace w1) = filter is_transfer (trace w)" by simp
  then show ?thesis using UPLOAD_BLOBS u
    by (simp add: upload_record_def split: sum.splits bool.splits)
qed

lemma transfers_upload_ii_push_record_exists:
  assumes ex: "\<And>h. sftp_exists ev h (target_name ev p r)" and no: "\<not> overwrite p"
  shows "filter is_transfer (trace (snd (snd (upload_ii_push_record ev p ii (Some r) w)))) =
         filter is_transfer (trace w)"
proof (cases "update_only ev")
  case True
  then show ?thesis by (simp add: upload_ii_push_record_def)
next
  case False
  note uo = this
  obtain b w1 where v: "upload_validate_settings ev p False w = (b, w1)"
    by (cases "upload_validate_settings ev p False w")
  have t1: "filter is_transfer (trace w1) = filter is_transfer (trace w)"
    using filter_upload_validate_settings [of is_transfer ev p False w] v by simp
  show ?thesis
  proof (cases "b \<and> in_field ii \<noteq> None")
    case False
    then show ?thesis using uo v t1 by (cases b) (auto simp: upload_ii_push_record_def)
  next
    case True
    note ok = this
    show ?thesis
    proof (cases "sftp_conn ii")
      case (Some c)
      then show ?thesis using uo v t1 ok upload_record_exists [where w = w1 and ii = ii, OF ex no]
        by (auto simp: upload_ii_push_record_def)
    next
      case None
      obtain x w2 where i: "upload_init_sftp ev p w1 = (x, w2)"
        by (cases "upload_init_sftp ev p w1")
      have t2: "filter is_transfer (trace w2) = filter is_transfer (trace w)"
        using transfers_upload_init_sftp [of ev p w1] i t1 by simp
      show ?thesis
      proof (cases x)
        case (Inl e)
        then show ?thesis using uo v ok None i t2 by (auto simp: upload_ii_push_record_def)
      next
        case (Inr co)
        show ?thesis
        proof (cases co)
          case None
          then show ?thesis using uo v ok \<open>sftp_conn ii = None\<close> i t2 Inr
            by (auto simp: upload_ii_push_record_def)
        next
          case (Some c)
          then show ?thesis
            using uo v ok \<open>sftp_conn ii = None\<close> i t2 Inr
              upload_record_exists [where w = w2 and ii = "ii\<lparr>sftp_conn := Some c\<rparr>", OF ex no]
            by (auto simp: upload_ii_push_record_def)
        qed
      qed
    qed
  qed
qed

lemma upload_validate_settings_ok:
  "upload_validation_messages ev (trace w) p = [] \<Longrightarrow>
   upload_validate_settings ev p silent w = (True, w)"
  by (simp add: upload_validate_settings_def)

lemma upload_record_skip:
  assumes ex: "sftp_exists ev (trace w) (target_name ev p r)" and no: "\<not> overwrite p"
    and ok: "upload_mode p = UPLOAD_FILES \<and> os_path_exists ev (trace w) (rec_name r) \<and>
             os_path_isfile ev (trace w) (rec_name r) \<or>
             upload_mode p = UPLOAD_BLOBS \<and> rec_name r \<noteq> []"
  shows "upload_record ev p ii r w =
           (Inr True, ii,
            emit (exists_warning p (target_name ev p r)) (emit (Exists (target_name ev p r)) w))"
proof (cases "upload_mode p = UPLOAD_FILES")
  case True
  with ok have l: "os_path_exists ev (trace w) (rec_name r)" "os_path_isfile ev (trace w) (rec_name r)"
    by auto
  from True have tn: "target_name ev p r = snd (os_path_split ev (rec_name r))"
    by (simp add: target_name_def)
  from ex tn have "sftp_exists ev (trace w) (snd (os_path_split ev (rec_name r)))" by simp
  from upload_file_exists(2) [OF this no l] True tn show ?thesis
    by (simp add: upload_record_def)
next
  case False
  with ok have b: "upload_mode p = UPLOAD_BLOBS" and ne: "rec_name r \<noteq> []" by auto
  from b have tn: "target_name ev p r = rec_name r" by (simp add: target_name_def)
  from ex tn have "sftp_exists ev (trace w) (rec_name r)" by simp
  from upload_blob_exists(2) [OF this no ne, of ii] b tn show ?thesis
    by (simp add: upload_record_def)
qed

text \<open>
  C6. When the name under which a record would be uploaded exists on the server and
  \<^verbatim>\<open>overwrite\<close> is off, \<^verbatim>\<open>ii_push_record\<close> of the upload engine never calls \<^verbatim>\<open>put\<close> or
  \<^verbatim>\<open>putfo\<close>. When the record reaches the check (the settings are valid, the field is
  bound, the connection is held or has just been made, and the local file exists and is
  a file, or the blob has a name), the method returns \<^verbatim>\<open>True\<close> without counting the
  record, and adds to the trace the existence check and exactly one warning: nothing
  else.
\<close>

theorem existing_remote_file_not_overwritten:
  "((\<forall>h. sftp_exists ev h (target_name ev p r)) \<and> \<not> overwrite p \<longrightarrow>
      filter is_transfer (trace (snd (snd (upload_ii_push_record ev p ii (Some r) w)))) =
        filter is_transfer (trace w)) \<and>
   ((\<forall>h. sftp_exists ev h (target_name ev p r)) \<and> \<not> overwrite p \<and>
    \<not> update_only ev \<and> upload_validation_messages ev (trace w) p = [] \<and>
    in_field ii \<noteq> None \<and> sftp_conn ii = Some c \<and>
    (upload_mode p = UPLOAD_FILES \<and> os_path_exists ev (trace w) (rec_name r) \<and>
       os_path_isfile ev (trace w) (rec_name r) \<or>
     upload_mode p = UPLOAD_BLOBS \<and> rec_name r \<noteq> []) \<longrightarrow>
      upload_ii_push_record ev p ii (Some r) w =
        (Inr True, ii,
         emit (exists_warning p (target_name ev p r)) (emit (Exists (target_name ev p r)) w))) \<and>
   ((\<forall>h. sftp_exists ev h (target_name ev p r)) \<and> \<not> overwrite p \<and>
    \<not> update_only ev \<and> upload_validation_messages ev (trace w) p = [] \<and>
    in_field ii \<noteq> None \<and> sftp_conn ii = None \<and>
    upload_init_sftp ev p w = (Inr (Some c), w1) \<and>
    (upload_mode p = UPLOAD_FILES \<and> os_path_exists ev (trace w1) (rec_name r) \<and>
       os_path_isfile ev (trace w1) (rec_name r) \<or>
     upload_mode p = UPLOAD_BLOBS \<and> rec_name r \<noteq> []) \<longrightarrow>
      upload_ii_push_record ev p ii (Some r) w =
        (Inr True, ii\<lparr>sftp_conn := Some c\<rparr>,
         emit (exists_warning p (target_name ev p r)) (emit (Exists (target_name ev p r)) w1)))"
proof (intro conjI impI)
  assume "(\<forall>h. sftp_exists ev h (target_name ev p r)) \<and> \<not> overwrite p"
  then show "filter is_transfer (trace (snd (snd (upload_ii_push_record ev p ii (Some r) w)))) =
        filter is_transfer (trace w)"
    by (intro transfers_upload_ii_push_record_exists) simp_all
next
  assume a: "(\<forall>h. sftp_exists ev h (target_name ev p r)) \<and> \<not> overwrite p \<and>
    \<not> update_only ev \<and> upload_validation_messages ev (trace w) p = [] \<and>
    in_field ii \<noteq> None \<and> sftp_conn ii = Some c \<and>
    (upload_mode p = UPLOAD_FILES \<and> os_path_exists ev (trace w) (rec_name r) \<and>
       os_path_isfile ev (trace w) (rec_name r) \<or>
     upload_mode p = UPLOAD_BLOBS \<and> rec_name r \<noteq> [])"
  then have v: "upload_validation_messages ev (trace w) p = []" by simp
  from a have "upload_record ev p ii r w =
           (Inr True, ii,
            emit (exists_warning p (target_name ev p r)) (emit (Exists (target_name ev p r)) w))"
    by (intro upload_record_skip) simp_all
  with a show "upload_ii_push_record ev p ii (Some r) w =
        (Inr True, ii,
         emit (exists_warning p (target_name ev p r)) (emit (Exists (target_name ev p r)) w))"
    by (simp add: upload_ii_push_record_def upload_validate_settings_ok [OF v])
next
  assume a: "(\<forall>h. sftp_exists ev h (target_name ev p r)) \<and> \<not> overwrite p \<and>
    \<not> update_only ev \<and> upload_validation_messages ev (trace w) p = [] \<and>
    in_field ii \<noteq> None \<and> sftp_conn ii = None \<and>
    upload_init_sftp ev p w = (Inr (Some c), w1) \<and>
    (upload_mode p = UPLOAD_FILES \<and> os_path_exists ev (trace w1) (rec_name r) \<and>
       os_path_isfile ev (trace w1) (rec_name r) \<or>
     upload_mode p = UPLOAD_BLOBS \<and> rec_name r \<noteq> [])"
  then have v: "upload_validation_messages ev (trace w) p = []" by simp
  from a have "upload_record ev p (ii\<lparr>sftp_conn := Some c\<rparr>) r w1 =
           (Inr True, ii\<lparr>sftp_conn := Some c\<rparr>,
            emit (exists_warning p (target_name ev p r)) (emit (Exists (target_name ev p r)) w1))"
    by (intro upload_record_skip) simp_all
  with a show "upload_ii_push_record ev p ii (Some r) w =
        (Inr True, ii\<lparr>sftp_conn := Some c\<rparr>,
         emit (exists_warning p (target_name ev p r)) (emit (Exists (target_name ev p r)) w1))"
    by (simp add: upload_ii_push_record_def upload_validate_settings_ok [OF v])
qed

theorem existing_remote_file_not_overwritten_witness:
  "overwrite example_upload_plugin = False \<and>
   target_name calm_env example_upload_plugin record_a = ''a.txt'' \<and>
   sftp_exists calm_env [] ''a.txt'' = True \<and>
   upload_ii_push_record calm_env example_upload_plugin ready_interface (Some record_a)
       known_world =
     (Inr True, ready_interface,
      known_world\<lparr>trace := [Exists ''a.txt'', exists_warning example_upload_plugin ''a.txt'']\<rparr>) \<and>
   filter is_transfer
     (trace (snd (snd (upload_ii_push_record calm_env example_upload_plugin ready_interface
                         (Some record_a) known_world)))) = [] \<and>
   upload_ii_push_record calm_env example_blob_upload_plugin ready_interface (Some record_blob_a)
       known_world =
     (Inr True, ready_interface,
      known_world\<lparr>trace := [Exists ''a.txt'',
                             exists_warning example_blob_upload_plugin ''a.txt'']\<rparr>) \<and>
   upload_ii_push_record calm_env example_upload_plugin (ready_interface\<lparr>sftp_conn := None\<rparr>)
       (Some record_a) known_world =
     (Inr True, ready_interface,
      known_world\<lparr>trace := [Connected 0,
                             Message MsgInfo ''Connected successfully to sftp.example.org'',
                             Chdir ''/in/'', Exists ''a.txt'',
                             exists_warning example_upload_plugin ''a.txt'']\<rparr>)"
proof -
  have no: "\<not> overwrite example_upload_plugin" "\<not> overwrite example_blob_upload_plugin"
    and mf: "upload_mode example_upload_plugin = UPLOAD_FILES"
    and mb: "upload_mode example_blob_upload_plugin = UPLOAD_BLOBS"
    by (simp_all add: example_upload_plugin_def example_blob_upload_plugin_def)
  have tn: "target_name calm_env example_upload_plugin record_a = ''a.txt''"
    and tb: "target_name calm_env example_blob_upload_plugin record_blob_a = ''a.txt''"
    by (simp_all add: target_name_def mf mb calm_env_def record_a_def record_blob_a_def
        path_tail_def)
  have ex: "\<And>h. sftp_exists calm_env h ''a.txt''"
    and uo: "\<not> update_only calm_env"
    and lf: "\<And>h. os_path_exists calm_env h (rec_name record_a)"
            "\<And>h. os_path_isfile calm_env h (rec_name record_a)"
    and ne: "rec_name record_blob_a \<noteq> []"
    by (simp_all add: calm_env_def record_blob_a_def)
  have v: "upload_validation_messages calm_env (trace known_world) example_upload_plugin = []"
    and vb: "upload_validation_messages calm_env (trace known_world) example_blob_upload_plugin = []"
    by code_simp+
  have inf: "in_field ready_interface \<noteq> None" "in_field (ready_interface\<lparr>sftp_conn := None\<rparr>) \<noteq> None"
    and sc: "sftp_conn ready_interface = Some 0" "sftp_conn (ready_interface\<lparr>sftp_conn := None\<rparr>) = None"
    and ri: "ready_interface\<lparr>sftp_conn := None, sftp_conn := Some 0\<rparr> = ready_interface"
    by (simp_all add: ready_interface_def)
  have t0: "filter is_transfer (trace known_world) = []" and tk: "trace known_world = []"
    by (simp_all add: known_world_def)
  have i: "upload_init_sftp calm_env example_upload_plugin known_world =
             (Inr (Some 0),
              known_world\<lparr>trace := [Connected 0,
                 Message MsgInfo ''Connected successfully to sftp.example.org'',
                 Chdir ''/in/'']\<rparr>)"
    by code_simp
  note th1 = existing_remote_file_not_overwritten
    [where ev = calm_env and p = example_upload_plugin and r = record_a and ii = ready_interface
       and w = known_world and c = 0]
  note th2 = existing_remote_file_not_overwritten
    [where ev = calm_env and p = example_blob_upload_plugin and r = record_blob_a
       and ii = ready_interface and w = known_world and c = 0]
  note th3 = existing_remote_file_not_overwritten
    [where ev = calm_env and p = example_upload_plugin and r = record_a
       and ii = "ready_interface\<lparr>sftp_conn := None\<rparr>" and w = known_world and c = 0
       and ?w1.0 = "known_world\<lparr>trace := [Connected 0,
                 Message MsgInfo ''Connected successfully to sftp.example.org'',
                 Chdir ''/in/'']\<rparr>"]
  from th1 tn ex no(1) uo v inf(1) sc(1) mf lf
  have a: "upload_ii_push_record calm_env example_upload_plugin ready_interface (Some record_a)
       known_world =
     (Inr True, ready_interface,
      known_world\<lparr>trace := [Exists ''a.txt'', exists_warning example_upload_plugin ''a.txt'']\<rparr>)"
    by (simp add: emit_def tk)
  from th1 tn ex no(1) t0
  have b: "filter is_transfer
     (trace (snd (snd (upload_ii_push_record calm_env example_upload_plugin ready_interface
                         (Some record_a) known_world)))) = []"
    by simp
  from th2 tb ex no(2) uo vb inf(1) sc(1) mb ne
  have c: "upload_ii_push_record calm_env example_blob_upload_plugin ready_interface
       (Some record_blob_a) known_world =
     (Inr True, ready_interface,
      known_world\<lparr>trace := [Exists ''a.txt'',
                             exists_warning example_blob_upload_plugin ''a.txt'']\<rparr>)"
    by (simp add: emit_def tk)
  from th3 tn ex no(1) uo v inf(2) sc(2) mf lf i
  have d: "upload_ii_push_record calm_env example_upload_plugin
       (ready_interface\<lparr>sftp_conn := None\<rparr>) (Some record_a) known_world =
     (Inr True, ready_interface,
      known_world\<lparr>trace := [Connected 0,
                             Message MsgInfo ''Connected successfully to sftp.example.org'',
                             Chdir ''/in/'', Exists ''a.txt'',
                             exists_warning example_upload_plugin ''a.txt'']\<rparr>)"
    by (simp add: emit_def ri)
  from no(1) tn ex a b c d show ?thesis by simp
qed

section \<open>Connecting to a host that is not in the known-hosts store\<close>

text \<open>A host without an entry gets a new entry appended; a connection that is returned
  after the key of an unknown host was cached has gone through the saving of the store.\<close>

lemma hostkeys_lookup_None:
  "hostkeys_lookup hk h = None \<longleftrightarrow> (\<forall>e \<in> set hk. h \<notin> set (hostnames e))"
  by (auto simp: hostkeys_lookup_def Let_def filter_empty_conv)

lemma hostkeys_add_unknown:
  "hostkeys_lookup hk h = None \<Longrightarrow>
   hostkeys_add hk h t k = hk @ [\<lparr>hostnames = [h], keytype = t, keydata = k\<rparr>]"
  unfolding hostkeys_lookup_None by (induction hk) simp_all

lemma cache_hostkey_success:
  assumes "cache_hostkey ev host kname key c w = (Some c', w')"
  shows "c' = c \<and>
         trace w' = trace w @ hosts_dir_events ev (trace w) @ [HostkeysSave (known_hosts_path ev)] \<and>
         known_hosts w' = hostkeys_add (known_hosts w) host kname key"
proof (cases "os_path_exists ev (trace w) (os_path_dirname ev (known_hosts_path ev))")
  case True
  then show ?thesis using assms
    by (auto simp: cache_hostkey_def Let_def hosts_dir_events_def split: option.splits)
next
  case False
  then show ?thesis using assms
    by (cases "os_mkdir ev (trace w) (os_path_dirname ev (known_hosts_path ev))")
       (auto simp: cache_hostkey_def Let_def hosts_dir_events_def split: option.splits)
qed

lemma open_connection_unknown_success:
  assumes u: "hostkeys_lookup (known_hosts w) (fmt (hostname s)) = None"
    and r: "open_connection ev s w = (Some c, w1)"
  shows "\<exists>kname key.
           connection ev (trace w @ [unknown_host_warning s]) = Inr (kname, key) \<and>
           c = Suc (length (trace w)) \<and>
           trace w1 = trace w @ [unknown_host_warning s, Connected c, caching_warning] @
                      hosts_dir_events ev
                        (trace w @ [unknown_host_warning s, Connected c, caching_warning]) @
                      [HostkeysSave (known_hosts_path ev)] \<and>
           known_hosts w1 =
             known_hosts w @ [\<lparr>hostnames = [fmt (hostname s)], keytype = kname, keydata = key\<rparr>]"
proof (cases "connection ev (trace w @ [unknown_host_warning s])")
  case (Inl e)
  then show ?thesis using u r
    by (simp add: open_connection_def Let_def unknown_host_warning_def)
next
  case (Inr kk)
  obtain kname key where kk: "kk = (kname, key)" by (cases kk)
  let ?w3 = "output_message MsgWarning
               ''Connected to unknown host. Caching its hostkey to known_hosts.''
               (emit (Connected (Suc (length (trace w))))
                  (output_message MsgWarning
                     (''Unkown host '' @ fmt (hostname s) @ ''. Any host key will be accepted.'') w))"
  from u r Inr kk
  have ch: "cache_hostkey ev (fmt (hostname s)) kname key (Suc (length (trace w))) ?w3 = (Some c, w1)"
    by (simp add: open_connection_def Let_def unknown_host_warning_def)
  from cache_hostkey_success [OF ch] Inr kk u show ?thesis
    by (simp add: unknown_host_warning_def caching_warning_def hostkeys_add_unknown)
qed

lemma init_sftp_success:
  assumes "init_sftp ev p w = (Inr (Some c), w')"
  shows "\<exists>w1. open_connection ev (sftp p) w = (Some c, w1) \<and>
              trace w' = trace w1 @ [connected_info (sftp p), Isdir (fmt (remote_path (sftp p))),
                                     Chdir (fmt (remote_path (sftp p)))] \<and>
              known_hosts w' = known_hosts w1"
proof (cases "open_connection ev (sftp p) w")
  case (Pair r w1)
  show ?thesis
  proof (cases r)
    case None
    then show ?thesis using Pair assms by (simp add: init_sftp_def)
  next
    case (Some cn)
    let ?w2 = "output_message MsgInfo (''Connected successfully to '' @ fmt (hostname (sftp p))) w1"
    show ?thesis
    proof (cases "sftp_isdir ev (trace ?w2) (fmt (remote_path (sftp p)))")
      case False
      then show ?thesis using Pair Some assms by (simp add: init_sftp_def Let_def)
    next
      case True
      then show ?thesis using Pair Some assms
        by (auto simp: init_sftp_def Let_def connected_info_def split: option.splits exn.splits)
    qed
  qed
qed

lemma upload_init_sftp_success:
  assumes "upload_init_sftp ev p w = (Inr (Some c), w')"
  shows "\<exists>w1. open_connection ev (u_sftp p) w = (Some c, w1) \<and>
              trace w' = trace w1 @ [connected_info (u_sftp p),
                                     Chdir (fmt (remote_path (u_sftp p)))] \<and>
              known_hosts w' = known_hosts w1"
proof (cases "open_connection ev (u_sftp p) w")
  case (Pair r w1)
  show ?thesis
  proof (cases r)
    case None
    then show ?thesis using Pair assms by (simp add: upload_init_sftp_def)
  next
    case (Some cn)
    then show ?thesis using Pair assms
      by (auto simp: upload_init_sftp_def Let_def connected_info_def
          split: option.splits exn.splits)
  qed
qed

text \<open>
  C4. When the host has no entry in the known-hosts store and \<^verbatim>\<open>_init_sftp\<close> returns a
  connection, the method has added to the trace, in this order: the warning that the host
  is unknown, the connection, the warning that its key is cached, the creation of the
  directory of the known-hosts file if it was missing, the saving of the file, the
  information that the connection succeeded, and the entering of the remote path. These
  hold exactly two warnings, one before the connection and one after it. The persisted
  store is the former store with one record appended: the host name with the type and
  the material of the key the server presented. This holds in both engines.
\<close>

theorem unknown_host_two_warnings_one_record:
  "(hostkeys_lookup (known_hosts w) (fmt (hostname (sftp p))) = None \<and>
    init_sftp ev p w = (Inr (Some c), w') \<longrightarrow>
      (\<exists>kname key.
         connection ev (trace w @ [unknown_host_warning (sftp p)]) = Inr (kname, key) \<and>
         known_hosts w' =
           known_hosts w @
           [\<lparr>hostnames = [fmt (hostname (sftp p))], keytype = kname, keydata = key\<rparr>]) \<and>
      trace w' =
        trace w @ [unknown_host_warning (sftp p), Connected c, caching_warning] @
        hosts_dir_events ev
          (trace w @ [unknown_host_warning (sftp p), Connected c, caching_warning]) @
        [HostkeysSave (known_hosts_path ev), connected_info (sftp p),
         Isdir (fmt (remote_path (sftp p))), Chdir (fmt (remote_path (sftp p)))] \<and>
      filter is_warning (trace w') =
        filter is_warning (trace w) @ [unknown_host_warning (sftp p), caching_warning]) \<and>
   (hostkeys_lookup (known_hosts w) (fmt (hostname (u_sftp up))) = None \<and>
    upload_init_sftp ev up w = (Inr (Some c), w') \<longrightarrow>
      (\<exists>kname key.
         connection ev (trace w @ [unknown_host_warning (u_sftp up)]) = Inr (kname, key) \<and>
         known_hosts w' =
           known_hosts w @
           [\<lparr>hostnames = [fmt (hostname (u_sftp up))], keytype = kname, keydata = key\<rparr>]) \<and>
      trace w' =
        trace w @ [unknown_host_warning (u_sftp up), Connected c, caching_warning] @
        hosts_dir_events ev
          (trace w @ [unknown_host_warning (u_sftp up), Connected c, caching_warning]) @
        [HostkeysSave (known_hosts_path ev), connected_info (u_sftp up),
         Chdir (fmt (remote_path (u_sftp up)))] \<and>
      filter is_warning (trace w') =
        filter is_warning (trace w) @ [unknown_host_warning (u_sftp up), caching_warning])"
proof (intro conjI impI)
  assume a: "hostkeys_lookup (known_hosts w) (fmt (hostname (sftp p))) = None \<and>
    init_sftp ev p w = (Inr (Some c), w')"
  then obtain w1 where o: "open_connection ev (sftp p) w = (Some c, w1)"
    and t: "trace w' = trace w1 @ [connected_info (sftp p), Isdir (fmt (remote_path (sftp p))),
                                   Chdir (fmt (remote_path (sftp p)))]"
    and k: "known_hosts w' = known_hosts w1"
    using init_sftp_success by blast
  from a have u: "hostkeys_lookup (known_hosts w) (fmt (hostname (sftp p))) = None" by simp
  from open_connection_unknown_success [OF u o] obtain kname key where
    cn: "connection ev (trace w @ [unknown_host_warning (sftp p)]) = Inr (kname, key)"
    and t1: "trace w1 = trace w @ [unknown_host_warning (sftp p), Connected c, caching_warning] @
                      hosts_dir_events ev
                        (trace w @ [unknown_host_warning (sftp p), Connected c, caching_warning]) @
                      [HostkeysSave (known_hosts_path ev)]"
    and k1: "known_hosts w1 =
             known_hosts w @
             [\<lparr>hostnames = [fmt (hostname (sftp p))], keytype = kname, keydata = key\<rparr>]"
    by blast
  from cn k k1 show "\<exists>kname key.
         connection ev (trace w @ [unknown_host_warning (sftp p)]) = Inr (kname, key) \<and>
         known_hosts w' =
           known_hosts w @
           [\<lparr>hostnames = [fmt (hostname (sftp p))], keytype = kname, keydata = key\<rparr>]"
    by simp
  from t t1 show tr: "trace w' =
        trace w @ [unknown_host_warning (sftp p), Connected c, caching_warning] @
        hosts_dir_events ev
          (trace w @ [unknown_host_warning (sftp p), Connected c, caching_warning]) @
        [HostkeysSave (known_hosts_path ev), connected_info (sftp p),
         Isdir (fmt (remote_path (sftp p))), Chdir (fmt (remote_path (sftp p)))]"
    by simp
  show "filter is_warning (trace w') =
        filter is_warning (trace w) @ [unknown_host_warning (sftp p), caching_warning]"
    unfolding tr
    by (simp add: unknown_host_warning_def caching_warning_def connected_info_def
        hosts_dir_events_def)
next
  assume a: "hostkeys_lookup (known_hosts w) (fmt (hostname (u_sftp up))) = None \<and>
    upload_init_sftp ev up w = (Inr (Some c), w')"
  then obtain w1 where o: "open_connection ev (u_sftp up) w = (Some c, w1)"
    and t: "trace w' = trace w1 @ [connected_info (u_sftp up),
                                   Chdir (fmt (remote_path (u_sftp up)))]"
    and k: "known_hosts w' = known_hosts w1"
    using upload_init_sftp_success by blast
  from a have u: "hostkeys_lookup (known_hosts w) (fmt (hostname (u_sftp up))) = None" by simp
  from open_connection_unknown_success [OF u o] obtain kname key where
    cn: "connection ev (trace w @ [unknown_host_warning (u_sftp up)]) = Inr (kname, key)"
    and t1: "trace w1 = trace w @ [unknown_host_warning (u_sftp up), Connected c, caching_warning] @
                      hosts_dir_events ev
                        (trace w @ [unknown_host_warning (u_sftp up), Connected c, caching_warning]) @
                      [HostkeysSave (known_hosts_path ev)]"
    and k1: "known_hosts w1 =
             known_hosts w @
             [\<lparr>hostnames = [fmt (hostname (u_sftp up))], keytype = kname, keydata = key\<rparr>]"
    by blast
  from cn k k1 show "\<exists>kname key.
         connection ev (trace w @ [unknown_host_warning (u_sftp up)]) = Inr (kname, key) \<and>
         known_hosts w' =
           known_hosts w @
           [\<lparr>hostnames = [fmt (hostname (u_sftp up))], keytype = kname, keydata = key\<rparr>]"
    by simp
  from t t1 show tr: "trace w' =
        trace w @ [unknown_host_warning (u_sftp up), Connected c, caching_warning] @
        hosts_dir_events ev
          (trace w @ [unknown_host_warning (u_sftp up), Connected c, caching_warning]) @
        [HostkeysSave (known_hosts_path ev), connected_info (u_sftp up),
         Chdir (fmt (remote_path (u_sftp up)))]"
    by simp
  show "filter is_warning (trace w') =
        filter is_warning (trace w) @ [unknown_host_warning (u_sftp up), caching_warning]"
    unfolding tr
    by (simp add: unknown_host_warning_def caching_warning_def connected_info_def
        hosts_dir_events_def)
qed

theorem unknown_host_two_warnings_one_record_witness:
  "hostkeys_lookup (known_hosts fresh_world) ''sftp.example.org'' = None \<and>
   fst (init_sftp calm_env example_plugin fresh_world) = Inr (Some 1) \<and>
   known_hosts (snd (init_sftp calm_env example_plugin fresh_world)) =
     [\<lparr>hostnames = [''sftp.example.org''], keytype = ''ssh-rsa'', keydata = ''AAAAB3''\<rparr>] \<and>
   filter is_warning (trace (snd (init_sftp calm_env example_plugin fresh_world))) =
     [unknown_host_warning example_settings, caching_warning] \<and>
   trace (snd (init_sftp calm_env example_plugin fresh_world)) =
     [unknown_host_warning example_settings, Connected 1, caching_warning,
      HostkeysSave ''/home/u/.ssh/known_hosts'', connected_info example_settings,
      Isdir ''/in/'', Chdir ''/in/''] \<and>
   fst (upload_init_sftp calm_env example_upload_plugin fresh_world) = Inr (Some 1) \<and>
   known_hosts (snd (upload_init_sftp calm_env example_upload_plugin fresh_world)) =
     [\<lparr>hostnames = [''sftp.example.org''], keytype = ''ssh-rsa'', keydata = ''AAAAB3''\<rparr>] \<and>
   filter is_warning (trace (snd (upload_init_sftp calm_env example_upload_plugin fresh_world))) =
     [unknown_host_warning example_settings, caching_warning]"
proof -
  obtain r1 w1 where i1: "init_sftp calm_env example_plugin fresh_world = (r1, w1)"
    by (cases "init_sftp calm_env example_plugin fresh_world")
  obtain r2 w2 where i2: "upload_init_sftp calm_env example_upload_plugin fresh_world = (r2, w2)"
    by (cases "upload_init_sftp calm_env example_upload_plugin fresh_world")
  have f1: "fst (init_sftp calm_env example_plugin fresh_world) = Inr (Some 1)"
    and f2: "fst (upload_init_sftp calm_env example_upload_plugin fresh_world) = Inr (Some 1)"
    by code_simp+
  from f1 i1 have e1: "init_sftp calm_env example_plugin fresh_world = (Inr (Some 1), w1)" by simp
  from f2 i2 have e2: "upload_init_sftp calm_env example_upload_plugin fresh_world = (Inr (Some 1), w2)"
    by simp
  have s: "sftp example_plugin = example_settings" "u_sftp example_upload_plugin = example_settings"
    and h: "fmt (hostname example_settings) = ''sftp.example.org''"
    and rp: "fmt (remote_path example_settings) = ''/in/''"
    by (simp_all add: example_plugin_def example_upload_plugin_def example_settings_def)
  have u: "hostkeys_lookup (known_hosts fresh_world) ''sftp.example.org'' = None"
    and tk: "trace fresh_world = []" and kk: "known_hosts fresh_world = []"
    by (simp_all add: fresh_world_def hostkeys_lookup_def)
  have cn: "\<And>hh. connection calm_env hh = Inr (''ssh-rsa'', ''AAAAB3'')"
    and hd: "\<And>hh. hosts_dir_events calm_env hh = []"
    and kp: "known_hosts_path calm_env = ''/home/u/.ssh/known_hosts''"
    by (simp_all add: calm_env_def hosts_dir_events_def)
  have u1: "hostkeys_lookup (known_hosts fresh_world) (fmt (hostname (sftp example_plugin))) = None"
    and u2: "hostkeys_lookup (known_hosts fresh_world) (fmt (hostname (u_sftp example_upload_plugin))) = None"
    using u s h by simp_all
  note th = unknown_host_two_warnings_one_record
    [where w = fresh_world and p = example_plugin and ev = calm_env and c = 1 and w' = w1
       and up = example_upload_plugin]
  note th' = unknown_host_two_warnings_one_record
    [where w = fresh_world and p = example_plugin and ev = calm_env and c = 1 and w' = w2
       and up = example_upload_plugin]
  from conjunct1 [OF th] u1 e1
  have k1: "\<exists>kname key.
         connection calm_env (trace fresh_world @ [unknown_host_warning (sftp example_plugin)]) =
           Inr (kname, key) \<and>
         known_hosts w1 =
           known_hosts fresh_world @
           [\<lparr>hostnames = [fmt (hostname (sftp example_plugin))], keytype = kname,
             keydata = key\<rparr>]"
    and t1: "trace w1 =
        trace fresh_world @
        [unknown_host_warning (sftp example_plugin), Connected 1, caching_warning] @
        hosts_dir_events calm_env
          (trace fresh_world @
           [unknown_host_warning (sftp example_plugin), Connected 1, caching_warning]) @
        [HostkeysSave (known_hosts_path calm_env), connected_info (sftp example_plugin),
         Isdir (fmt (remote_path (sftp example_plugin))),
         Chdir (fmt (remote_path (sftp example_plugin)))]"
    and g1: "filter is_warning (trace w1) =
        filter is_warning (trace fresh_world) @
        [unknown_host_warning (sftp example_plugin), caching_warning]"
    by blast+
  from conjunct2 [OF th'] u2 e2
  have k2: "\<exists>kname key.
         connection calm_env
           (trace fresh_world @ [unknown_host_warning (u_sftp example_upload_plugin)]) =
           Inr (kname, key) \<and>
         known_hosts w2 =
           known_hosts fresh_world @
           [\<lparr>hostnames = [fmt (hostname (u_sftp example_upload_plugin))], keytype = kname,
             keydata = key\<rparr>]"
    and g2: "filter is_warning (trace w2) =
        filter is_warning (trace fresh_world) @
        [unknown_host_warning (u_sftp example_upload_plugin), caching_warning]"
    by blast+
  from k1 have a: "known_hosts w1 =
     [\<lparr>hostnames = [''sftp.example.org''], keytype = ''ssh-rsa'', keydata = ''AAAAB3''\<rparr>]"
    by (auto simp: cn kk s h)
  from g1 have b: "filter is_warning (trace w1) =
     [unknown_host_warning example_settings, caching_warning]"
    by (simp add: tk s)
  from t1 have c: "trace w1 =
     [unknown_host_warning example_settings, Connected 1, caching_warning,
      HostkeysSave ''/home/u/.ssh/known_hosts'', connected_info example_settings,
      Isdir ''/in/'', Chdir ''/in/'']"
    by (simp add: tk s hd kp rp)
  from k2 have a': "known_hosts w2 =
     [\<lparr>hostnames = [''sftp.example.org''], keytype = ''ssh-rsa'', keydata = ''AAAAB3''\<rparr>]"
    by (auto simp: cn kk s h)
  from g2 have b': "filter is_warning (trace w2) =
     [unknown_host_warning example_settings, caching_warning]"
    by (simp add: tk s)
  have r: "fst (init_sftp calm_env example_plugin fresh_world) = Inr (Some 1)"
      "snd (init_sftp calm_env example_plugin fresh_world) = w1"
      "fst (upload_init_sftp calm_env example_upload_plugin fresh_world) = Inr (Some 1)"
      "snd (upload_init_sftp calm_env example_upload_plugin fresh_world) = w2"
    using e1 e2 by simp_all
  show ?thesis unfolding r using u a b c a' b' by blast
qed

section \<open>The connection of a run over an incoming connection\<close>





























end
